theory Spec2Isabelle
  imports Main "HOL-Library.AList"
begin

section \<open>Values of a parsed namelist\<close>

text \<open>
  The parser of \<^verbatim>\<open>f90nml/parser.py\<close> builds Python values: \<^verbatim>\<open>None\<close> for an unset
  position, scalars, lists (arrays, nested for several dimensions) and \<^verbatim>\<open>Namelist\<close>
  objects, which are dictionaries (\<^verbatim>\<open>isinstance(x, dict)\<close> holds for them). A dictionary
  is kept as an association list in insertion order, the way an ordered dictionary keeps
  its keys. A \<^verbatim>\<open>Namelist\<close> also has the attribute \<^verbatim>\<open>start_index\<close>, a dictionary from
  variable names to vectors of first indices, which the parser reads and writes; it is the
  second argument of \<open>VDict\<close>. Floating-point and complex scalars are produced by helpers outside
  \<^verbatim>\<open>parser.py\<close>; the parser only stores them, so they are carried as their literal text.
\<close>

datatype val =
    VNone
  | VInt int
  | VBool bool
  | VStr string
  | VFloat string
  | VComplex string
  | VList "val list"
  | VDict "(string \<times> val) list" "(string \<times> int option list) list"

fun is_list :: "val \<Rightarrow> bool" where
  "is_list (VList xs) = True"
| "is_list v = False"

fun is_dict :: "val \<Rightarrow> bool" where
  "is_dict (VDict kvs si) = True"
| "is_dict v = False"

section \<open>Support functions: \<^verbatim>\<open>delist\<close>\<close>

text \<open>
  \<^verbatim>\<open>
  def delist(values):
      assert isinstance(values, list)
      if not values:
          return None
      elif len(values) == 1:
          return values[0]
      return values
  \<close>
  The argument is a list by type, so the assertion cannot fail in the model.
\<close>

fun delist :: "val list \<Rightarrow> val" where
  "delist [] = VNone"
| "delist [v] = v"
| "delist values = VList values"

section \<open>Support functions: merging two assignments of one variable\<close>

text \<open>
  \<^verbatim>\<open>merge_values\<close> wraps every operand that is not a list in a one-element list
  (\<^verbatim>\<open>as_list\<close>), unless both operands are dictionaries.
\<close>

fun as_list :: "val \<Rightarrow> val list" where
  "as_list (VList xs) = xs"
| "as_list v = [v]"

text \<open>
  \<^verbatim>\<open>l_min.extend(None for i in range(len(l_min), len(l_max)))\<close>: the shorter list
  receives \<^verbatim>\<open>None\<close> entries at its end until it has the length of the longer one.
\<close>

definition extend_none :: "val list \<Rightarrow> nat \<Rightarrow> val list" where
  "extend_none l n = l @ replicate (n - length l) VNone"

text \<open>A weight that the second argument of every recursive call of the merge decreases.\<close>

fun wt :: "val \<Rightarrow> nat" where
  "wt (VList xs) = Suc (sum_list (map wt xs))"
| "wt (VDict kvs si) = Suc (sum_list (map (\<lambda>kv. wt (snd kv)) kvs))"
| "wt v = 1"

lemma wt_pos: "0 < wt v"
  by (cases v) simp_all

lemma wt_le_sum: "v \<in> set xs \<Longrightarrow> wt v \<le> sum_list (map wt xs)"
  by (induction xs) auto

lemma as_list_wt: "3 * sum_list (map wt (as_list new)) < Suc (3 * wt new)"
  by (cases new) simp_all

lemma extend_none_mem: "v \<in> set (extend_none l n) \<Longrightarrow> v \<noteq> VNone \<Longrightarrow> v \<in> set l"
  by (auto simp: extend_none_def)

lemma zip_new_mem:
  assumes "(s, v) \<in> set (zip (if length src < length new then extend_none src (length new) else src)
                            (if length src < length new then new else extend_none new (length src)))"
    and "v \<noteq> VNone"
  shows "v \<in> set new"
  using assms by (auto dest!: set_zip_rightD extend_none_mem split: if_splits)

lemma zip_list_wt:
  assumes "(s, VList vl) \<in> set (zip (if length src < length new then extend_none src (length new) else src)
                            (if length src < length new then new else extend_none new (length src)))"
  shows "sum_list (map wt vl) < sum_list (map wt new)"
proof -
  have "VList vl \<in> set new" using assms by (rule zip_new_mem) simp
  then have "wt (VList vl) \<le> sum_list (map wt new)" by (rule wt_le_sum)
  then show ?thesis by simp
qed

lemma zip_dict_wt:
  assumes "(s, VDict vd vsi) \<in> set (zip (if length src < length new then extend_none src (length new) else src)
                            (if length src < length new then new else extend_none new (length src)))"
  shows "Suc (Suc (3 * sum_list (map (\<lambda>kv. wt (snd kv)) vd))) < 3 * sum_list (map wt new)"
proof -
  have "VDict vd vsi \<in> set new" using assms by (rule zip_new_mem) simp
  then have "wt (VDict vd vsi) \<le> sum_list (map wt new)" by (rule wt_le_sum)
  then show ?thesis by simp
qed

text \<open>
  \<^verbatim>\<open>
  def merge_values(src, new):
      if isinstance(src, dict) and isinstance(new, dict):
          return merge_dicts(src, new)
      else:
          if not isinstance(src, list): src = [src]
          if not isinstance(new, list): new = [new]
          return merge_lists(src, new)

  def merge_lists(src, new):
      l_min, l_max = (src, new) if len(src) < len(new) else (new, src)
      l_min.extend(None for i in range(len(l_min), len(l_max)))
      for i, val in enumerate(new):
          if isinstance(val, dict) and isinstance(src[i], dict):
              new[i] = merge_dicts(src[i], val)
          elif isinstance(val, list) and isinstance(src[i], list):
              new[i] = merge_lists(src[i], val)
          elif val is not None:
              new[i] = val
          else:
              new[i] = src[i]
      return new

  def merge_dicts(src, patch):
      for key in patch:
          if key in src:
              if isinstance(src[key], dict) and isinstance(patch[key], dict):
                  merge_dicts(src[key], patch[key])
              else:
                  src[key] = merge_values(src[key], patch[key])
          else:
              src[key] = patch[key]
      return src
  \<close>
  The Python functions update \<^verbatim>\<open>new\<close> (lists) and \<^verbatim>\<open>src\<close> (dictionaries) in place and
  return them; the model returns the updated value. A merged dictionary is the object
  \<^verbatim>\<open>src\<close>, so it keeps the \<^verbatim>\<open>start_index\<close> of \<^verbatim>\<open>src\<close>. After the padding both lists have
  one length, so the loop over \<^verbatim>\<open>enumerate(new)\<close> is a map over the zipped lists.
  The loop of \<^verbatim>\<open>merge_dicts\<close> runs over the keys of \<^verbatim>\<open>patch\<close> in order, each step
  reading and updating the dictionary built so far: an existing key keeps its place
  (\<^const>\<open>AList.update\<close>), a new key goes to the end.
\<close>

function merge_values :: "val \<Rightarrow> val \<Rightarrow> val"
  and merge_lists :: "val list \<Rightarrow> val list \<Rightarrow> val list"
  and merge_dicts :: "(string \<times> val) list \<Rightarrow> (string \<times> val) list \<Rightarrow> (string \<times> val) list"
where
  "merge_values src new =
     (case (src, new) of
        (VDict s ssi, VDict n nsi) \<Rightarrow> VDict (merge_dicts s n) ssi
      | _ \<Rightarrow> VList (merge_lists (as_list src) (as_list new)))"
| "merge_lists src new =
     (let src' = (if length src < length new then extend_none src (length new) else src);
          new' = (if length src < length new then new else extend_none new (length src))
      in map (\<lambda>(s, v).
            (case (v, s) of
               (VDict vd vsi, VDict sd ssi) \<Rightarrow> VDict (merge_dicts sd vd) ssi
             | (VList vl, VList sl) \<Rightarrow> VList (merge_lists sl vl)
             | (VNone, _) \<Rightarrow> s
             | _ \<Rightarrow> v)) (zip src' new'))"
| "merge_dicts src [] = src"
| "merge_dicts src ((key, p) # patch) =
     merge_dicts
       (case map_of src key of
          Some s \<Rightarrow>
            (case (s, p) of
               (VDict sd ssi, VDict pd psi) \<Rightarrow> AList.update key (VDict (merge_dicts sd pd) ssi) src
             | _ \<Rightarrow> AList.update key (merge_values s p) src)
        | None \<Rightarrow> src @ [(key, p)])
       patch"
  by pat_completeness auto

termination
  apply (relation "measure (\<lambda>x. case x of
        Inl (s, n) \<Rightarrow> 3 * wt n + 1
      | Inr (Inl (s, n)) \<Rightarrow> 3 * sum_list (map wt n)
      | Inr (Inr (s, p)) \<Rightarrow> 3 * sum_list (map (\<lambda>kv. wt (snd kv)) p) + 2)")
  apply (auto simp: wt_pos as_list_wt intro: zip_list_wt zip_dict_wt)
  done

declare merge_values.simps [simp del] merge_lists.simps [simp del]


definition merge_entry :: "val \<Rightarrow> val \<Rightarrow> val" where
  "merge_entry old new =
     (if (is_dict old \<and> is_dict new) \<or> (is_list old \<and> is_list new) then merge_values old new
      else if new \<noteq> VNone then new else old)"


section \<open>The parser object and its token cursor\<close>

text \<open>
  Exceptions are values. Every function of the parser that can raise returns either
  \<open>Inl (e, st)\<close>, the exception with the parser as the raise left it (the tokens it
  consumed and the text it wrote to the patch file stay consumed and written), or
  \<open>Inr\<close> of its result and the updated parser.
\<close>

datatype error =
    StopIteration
  | ValueError string
  | TypeError
  | IndexError
  | KeyError
  | AttributeError
  | AssertionError

text \<open>
  The attributes of \<^verbatim>\<open>Parser\<close> set in \<^verbatim>\<open>__init__\<close>. \<open>tokens\<close> is what is left of the
  iterator \<^verbatim>\<open>self.tokens\<close>; \<open>token\<close> and \<open>prior_token\<close> are \<^verbatim>\<open>None\<close> until the first
  call of \<^verbatim>\<open>update_tokens\<close>; \<open>pfile\<close> is \<^verbatim>\<open>None\<close> outside patch mode and otherwise the
  text written to the patch file so far.
\<close>

record parser =
  tokens :: "string list"
  token :: "string option"
  prior_token :: "string option"
  pfile :: "string option"
  default_start_index :: int
  global_start_index :: "int option"
  comment_tokens :: string
  sparse_arrays :: bool
  row_major :: bool
  strict_logical :: bool

text \<open>\<^verbatim>\<open>string.whitespace\<close>: space, tab, line feed, carriage return, vertical tab, form feed.\<close>

definition whitespace :: string where
  "whitespace = [CHR '' '', CHR 0x09, CHR 0x0A, CHR 0x0D, CHR 0x0B, CHR 0x0C]"

text \<open>\<^verbatim>\<open>if self.pfile: self.pfile.write(text)\<close>\<close>

definition pfile_write :: "string \<Rightarrow> parser \<Rightarrow> parser" where
  "pfile_write text st =
     (case pfile st of None \<Rightarrow> st | Some out \<Rightarrow> st\<lparr>pfile := Some (out @ text)\<rparr>)"

text \<open>
  The inner loop of \<^verbatim>\<open>update_tokens\<close> that copies a comment up to the end of its line:
  \<^verbatim>\<open>
  while not next_token == '\n':
      patch_tokens += next_token
      next_token = next(self.tokens)
  \<close>
  The result is \<open>None\<close> when the iterator ends first (\<^verbatim>\<open>StopIteration\<close>).
\<close>

fun comment_run :: "string \<Rightarrow> string \<Rightarrow> string list \<Rightarrow> (string \<times> string \<times> string list) option" where
  "comment_run patch_tokens next_token [] =
     (if next_token = [CHR 0x0A] then Some (patch_tokens, next_token, []) else None)"
| "comment_run patch_tokens next_token (t # ts) =
     (if next_token = [CHR 0x0A] then Some (patch_tokens, next_token, t # ts)
      else comment_run (patch_tokens @ next_token) t ts)"

lemma comment_run_length:
  "comment_run pt nt ts = Some (pt', nt', ts') \<Longrightarrow> length ts' \<le> length ts"
  by (induction pt nt ts rule: comment_run.induct) (auto split: if_splits)

text \<open>
  The outer loop of \<^verbatim>\<open>update_tokens\<close>, over whitespace and comment tokens:
  \<^verbatim>\<open>
  while next_token[0] in self.comment_tokens + whitespace:
      if self.pfile:
          if next_token[0] in self.comment_tokens:
              while not next_token == '\n': ...
          patch_tokens += next_token
      try:
          next_token = next(self.tokens)
      except StopIteration:
          if not patch_skip or next_token in ('=', '(', '%'):
              patch_tokens = patch_value + patch_tokens
          if self.pfile:
              self.pfile.write(patch_tokens)
          raise
  \<close>
  The arguments after the parser are the locals \<^verbatim>\<open>patch_skip\<close>, \<^verbatim>\<open>patch_value\<close>,
  \<^verbatim>\<open>patch_tokens\<close>, \<^verbatim>\<open>next_token\<close> and the rest of the iterator. An empty token makes
  \<^verbatim>\<open>next_token[0]\<close> raise \<^verbatim>\<open>IndexError\<close>.
\<close>

function skip_padding ::
  "parser \<Rightarrow> bool \<Rightarrow> string \<Rightarrow> string \<Rightarrow> string \<Rightarrow> string list
     \<Rightarrow> (error \<times> parser) + (string \<times> string \<times> string list)" where
  "skip_padding st patch_skip patch_value patch_tokens next_token ts =
     (case next_token of
        [] \<Rightarrow> Inl (IndexError, st\<lparr>tokens := ts\<rparr>)
      | c # _ \<Rightarrow>
          if c \<in> set (comment_tokens st @ whitespace) then
            (case (if pfile st \<noteq> None then
                     (if c \<in> set (comment_tokens st) then
                        (case comment_run patch_tokens next_token ts of
                           None \<Rightarrow> None
                         | Some (pt, nt, ts') \<Rightarrow> Some (pt @ nt, nt, ts'))
                      else Some (patch_tokens @ next_token, next_token, ts))
                   else Some (patch_tokens, next_token, ts)) of
               None \<Rightarrow> Inl (StopIteration, st\<lparr>tokens := []\<rparr>)
             | Some (pt, nt, ts') \<Rightarrow>
                 (case ts' of
                    [] \<Rightarrow>
                      Inl (StopIteration,
                           pfile_write
                             (if \<not> patch_skip \<or> nt \<in> {''='', ''('', ''%''}
                              then patch_value @ pt else pt)
                             (st\<lparr>tokens := []\<rparr>))
                  | t # ts'' \<Rightarrow> skip_padding st patch_skip patch_value pt t ts''))
          else Inr (patch_tokens, next_token, ts))"
  by pat_completeness auto

termination
  by (relation "measure (\<lambda>(st, patch_skip, patch_value, patch_tokens, next_token, ts). length ts)")
     (auto split: if_splits option.splits dest: comment_run_length)

declare skip_padding.simps [simp del]

text \<open>
  \<^verbatim>\<open>
  def update_tokens(self, write_token=True, override=None, patch_skip=False):
      next_token = next(self.tokens)
      patch_value = ''
      patch_tokens = ''
      if self.pfile and write_token:
          token = override if override else self.token
          patch_value += token
      while ...                       # skip_padding
      if not patch_skip or next_token in ('=', '(', '%'):
          patch_tokens = patch_value + patch_tokens
      if self.pfile:
          self.pfile.write(patch_tokens)
      self.token, self.prior_token = next_token, self.token
  \<close>
  \<^verbatim>\<open>patch_value += token\<close> raises \<^verbatim>\<open>TypeError\<close> while \<^verbatim>\<open>self.token\<close> is still \<^verbatim>\<open>None\<close>.
\<close>

definition update_tokens :: "bool \<Rightarrow> string option \<Rightarrow> bool \<Rightarrow> parser \<Rightarrow> (error \<times> parser) + parser" where
  "update_tokens write_token override patch_skip st =
     (case tokens st of
        [] \<Rightarrow> Inl (StopIteration, st)
      | next_token # ts \<Rightarrow>
          (case (if pfile st \<noteq> None \<and> write_token
                 then (if override \<noteq> None \<and> override \<noteq> Some [] then override else token st)
                 else Some []) of
             None \<Rightarrow> Inl (TypeError, st\<lparr>tokens := ts\<rparr>)
           | Some patch_value \<Rightarrow>
               (case skip_padding st patch_skip patch_value [] next_token ts of
                  Inl e \<Rightarrow> Inl e
                | Inr (patch_tokens, next_token', ts') \<Rightarrow>
                    Inr (pfile_write
                           (if \<not> patch_skip \<or> next_token' \<in> {''='', ''('', ''%''}
                            then patch_value @ patch_tokens else patch_tokens)
                           (st\<lparr>tokens := ts', token := Some next_token',
                               prior_token := token st\<rparr>)))))"

text \<open>The call with all defaults, \<^verbatim>\<open>self.update_tokens()\<close>.\<close>

abbreviation advance :: "parser \<Rightarrow> (error \<times> parser) + parser" where
  "advance \<equiv> update_tokens True None False"

text \<open>
  A parser in read mode (no patch file) with the configuration of \<^verbatim>\<open>__init__\<close>, its
  cursor on the token \<open>tok\<close> after \<open>prior\<close>, with \<open>ts\<close> still to come.
\<close>

definition reading :: "string \<Rightarrow> string \<Rightarrow> string list \<Rightarrow> parser" where
  "reading prior tok ts = \<lparr>tokens = ts, token = Some tok, prior_token = Some prior, pfile = None,
     default_start_index = 1, global_start_index = None, comment_tokens = ''!'',
     sparse_arrays = False, row_major = False, strict_logical = True\<rparr>"

text \<open>A token that \<^verbatim>\<open>update_tokens\<close> stops at: not empty, not whitespace, not a comment.\<close>

definition plain :: "parser \<Rightarrow> string \<Rightarrow> bool" where
  "plain st t = (t \<noteq> [] \<and> hd t \<notin> set (comment_tokens st @ whitespace))"

section \<open>Parsing an index expression\<close>

text \<open>
  Python's \<^verbatim>\<open>int(s)\<close> for a string, base 10: surrounding whitespace is dropped, a sign may
  come first, then decimal digits, with single underscores allowed between digits.
  \<open>None\<close> is the \<^verbatim>\<open>ValueError\<close>. Strings are byte strings here, so digits and spaces
  beyond ASCII are not covered.
\<close>

definition is_space :: "char \<Rightarrow> bool" where
  "is_space c = (c \<in> set [CHR 0x09, CHR 0x0A, CHR 0x0B, CHR 0x0C, CHR 0x0D,
                           CHR 0x1C, CHR 0x1D, CHR 0x1E, CHR 0x1F, CHR '' ''])"

definition strip :: "string \<Rightarrow> string" where
  "strip s = rev (dropWhile is_space (rev (dropWhile is_space s)))"

definition is_digit :: "char \<Rightarrow> bool" where
  "is_digit c = (48 \<le> (of_char c :: nat) \<and> (of_char c :: nat) \<le> 57)"

definition digit_value :: "char \<Rightarrow> int" where
  "digit_value c = int (of_char c) - 48"

text \<open>
  \<open>digits_value acc after_digit s\<close> reads the rest \<open>s\<close> of a digit string;
  \<open>after_digit\<close> tells whether the character before was a digit (an underscore must
  stand between two digits).
\<close>

fun digits_value :: "int \<Rightarrow> bool \<Rightarrow> string \<Rightarrow> int option" where
  "digits_value acc after_digit [] = (if after_digit then Some acc else None)"
| "digits_value acc after_digit (c # cs) =
     (if is_digit c then digits_value (10 * acc + digit_value c) True cs
      else if c = CHR ''_'' \<and> after_digit then digits_value acc False cs
      else None)"

definition py_int :: "string \<Rightarrow> int option" where
  "py_int s =
     (case strip s of
        [] \<Rightarrow> None
      | c # cs \<Rightarrow>
          if c = CHR ''-'' then map_option uminus (digits_value 0 False cs)
          else if c = CHR ''+'' then digits_value 0 False cs
          else digits_value 0 False (c # cs))"

text \<open>
  The message of the \<^verbatim>\<open>ValueError\<close> that \<^verbatim>\<open>int\<close> raises shows \<^verbatim>\<open>repr\<close> of the string;
  for a token without quotes, backslashes or control characters that is the token
  between single quotes.
\<close>

definition int_error :: "string \<Rightarrow> error" where
  "int_error s = ValueError (''invalid literal for int() with base 10: '' @ [CHR 0x27] @ s @ [CHR 0x27])"

text \<open>\<^verbatim>\<open>int(self.token)\<close>; \<^verbatim>\<open>int(None)\<close> raises \<^verbatim>\<open>TypeError\<close>.\<close>

definition int_of_token :: "parser \<Rightarrow> error + int" where
  "int_of_token st =
     (case token st of
        None \<Rightarrow> Inl TypeError
      | Some t \<Rightarrow> (case py_int t of None \<Rightarrow> Inl (int_error t) | Some n \<Rightarrow> Inr n))"

text \<open>
  \<^verbatim>\<open>parse_index\<close> in its three blocks. The start index:
  \<^verbatim>\<open>
  self.update_tokens()
  try:
      i_start = int(self.token)
      self.update_tokens()
  except ValueError:
      if self.token in (',', ')'):
          raise ValueError('{0} index cannot be empty.'.format(v_name))
      elif not self.token == ':':
          raise
  \<close>
\<close>

definition parse_index_start :: "string \<Rightarrow> parser \<Rightarrow> (error \<times> parser) + (int option \<times> parser)" where
  "parse_index_start v_name st =
     (case int_of_token st of
        Inr n \<Rightarrow> (case advance st of Inl e \<Rightarrow> Inl e | Inr st' \<Rightarrow> Inr (Some n, st'))
      | Inl (ValueError m) \<Rightarrow>
          if token st \<in> {Some '','', Some '')''}
          then Inl (ValueError (v_name @ '' index cannot be empty.''), st)
          else if token st \<noteq> Some '':'' then Inl (ValueError m, st)
          else Inr (None, st)
      | Inl e \<Rightarrow> Inl (e, st))"

text \<open>
  The end index:
  \<^verbatim>\<open>
  if self.token == ':':
      self.update_tokens()
      try:
          i_end = 1 + int(self.token)
          self.update_tokens()
      except ValueError:
          if self.token == ':':
              raise ValueError('{0} end index cannot be implicit '
                               'when using stride.'.format(v_name))
          elif self.token not in (',', ')'):
              raise
  elif self.token in (',', ')'):
      # Replace index with single-index range
      if i_start:
          i_end = 1 + i_start
  \<close>
  \<^verbatim>\<open>if i_start:\<close> is false for \<^verbatim>\<open>None\<close> and for \<^verbatim>\<open>0\<close>.
\<close>

definition parse_index_end ::
  "string \<Rightarrow> int option \<Rightarrow> parser \<Rightarrow> (error \<times> parser) + (int option \<times> parser)" where
  "parse_index_end v_name i_start st =
     (if token st = Some '':'' then
        (case advance st of
           Inl e \<Rightarrow> Inl e
         | Inr st1 \<Rightarrow>
             (case int_of_token st1 of
                Inr n \<Rightarrow>
                  (case advance st1 of Inl e \<Rightarrow> Inl e | Inr st2 \<Rightarrow> Inr (Some (1 + n), st2))
              | Inl (ValueError m) \<Rightarrow>
                  if token st1 = Some '':''
                  then Inl (ValueError (v_name @ '' end index cannot be implicit when using stride.''), st1)
                  else if token st1 \<notin> {Some '','', Some '')''} then Inl (ValueError m, st1)
                  else Inr (None, st1)
              | Inl e \<Rightarrow> Inl (e, st1)))
      else if token st \<in> {Some '','', Some '')''} then
        Inr ((case i_start of
                None \<Rightarrow> None
              | Some n \<Rightarrow> if n \<noteq> 0 then Some (1 + n) else None), st)
      else Inr (None, st))"

text \<open>
  The stride:
  \<^verbatim>\<open>
  if self.token == ':':
      self.update_tokens()
      try:
          i_stride = int(self.token)
      except ValueError:
          if self.token == ')':
              raise ValueError('{0} stride index cannot be '
                               'implicit.'.format(v_name))
          else:
              raise
      if i_stride == 0:
          raise ValueError('{0} stride index cannot be zero.'
                           ''.format(v_name))
      self.update_tokens()
  \<close>
\<close>

definition parse_index_stride :: "string \<Rightarrow> parser \<Rightarrow> (error \<times> parser) + (int option \<times> parser)" where
  "parse_index_stride v_name st =
     (if token st = Some '':'' then
        (case advance st of
           Inl e \<Rightarrow> Inl e
         | Inr st1 \<Rightarrow>
             (case int_of_token st1 of
                Inr n \<Rightarrow>
                  if n = 0 then Inl (ValueError (v_name @ '' stride index cannot be zero.''), st1)
                  else (case advance st1 of Inl e \<Rightarrow> Inl e | Inr st2 \<Rightarrow> Inr (Some n, st2))
              | Inl (ValueError m) \<Rightarrow>
                  if token st1 = Some '')''
                  then Inl (ValueError (v_name @ '' stride index cannot be implicit.''), st1)
                  else Inl (ValueError m, st1)
              | Inl e \<Rightarrow> Inl (e, st1)))
      else Inr (None, st))"

text \<open>
  \<^verbatim>\<open>
  def parse_index(self, v_name):
      i_start = i_end = i_stride = None
      ...                                  # the three blocks
      if self.token not in (',', ')'):
          raise ValueError('{0} index did not terminate '
                           'correctly.'.format(v_name))
      idx_triplet = (i_start, i_end, i_stride)
      return idx_triplet
  \<close>
\<close>

type_synonym triplet = "int option \<times> int option \<times> int option"

definition parse_index :: "string \<Rightarrow> parser \<Rightarrow> (error \<times> parser) + (triplet \<times> parser)" where
  "parse_index v_name st =
     (case advance st of
        Inl e \<Rightarrow> Inl e
      | Inr st1 \<Rightarrow>
     (case parse_index_start v_name st1 of
        Inl e \<Rightarrow> Inl e
      | Inr (i_start, st2) \<Rightarrow>
     (case parse_index_end v_name i_start st2 of
        Inl e \<Rightarrow> Inl e
      | Inr (i_end, st3) \<Rightarrow>
     (case parse_index_stride v_name st3 of
        Inl e \<Rightarrow> Inl e
      | Inr (i_stride, st4) \<Rightarrow>
          if token st4 \<notin> {Some '','', Some '')''}
          then Inl (ValueError (v_name @ '' index did not terminate correctly.''), st4)
          else Inr ((i_start, i_end, i_stride), st4)))))"

text \<open>
  An error message names the variable when it starts with the variable's name, as the
  messages built with \<^verbatim>\<open>'{0} ...'.format(v_name)\<close> do.
\<close>

definition names_variable :: "string \<Rightarrow> error \<Rightarrow> bool" where
  "names_variable v_name e =
     (case e of ValueError m \<Rightarrow> take (length v_name) m = v_name | _ \<Rightarrow> False)"

text \<open>
  The well-formed indices of one dimension, \<^verbatim>\<open>start[:end[:stride]]\<close> with an explicit end
  before a stride and a stride that is not zero, as the tokens between the opening
  parenthesis (or the comma of the dimension before) and the closing token, with the
  triplet \<^verbatim>\<open>parse_index\<close> is to return for them.
\<close>

inductive well_formed_index :: "string list \<Rightarrow> triplet \<Rightarrow> bool" where
  single: "py_int a = Some n \<Longrightarrow>
     well_formed_index [a] (Some n, if n = 0 then None else Some (1 + n), None)"
| from_start: "py_int a = Some n \<Longrightarrow> well_formed_index [a, '':''] (Some n, None, None)"
| whole: "well_formed_index ['':''] (None, None, None)"
| to_end: "py_int b = Some m \<Longrightarrow> well_formed_index ['':'', b] (None, Some (1 + m), None)"
| range: "py_int a = Some n \<Longrightarrow> py_int b = Some m \<Longrightarrow>
     well_formed_index [a, '':'', b] (Some n, Some (1 + m), None)"
| strided: "py_int a = Some n \<Longrightarrow> py_int b = Some m \<Longrightarrow> py_int c = Some k \<Longrightarrow> k \<noteq> 0 \<Longrightarrow>
     well_formed_index [a, '':'', b, '':'', c] (Some n, Some (1 + m), Some k)"
| strided_to_end: "py_int b = Some m \<Longrightarrow> py_int c = Some k \<Longrightarrow> k \<noteq> 0 \<Longrightarrow>
     well_formed_index ['':'', b, '':'', c] (None, Some (1 + m), Some k)"

section \<open>Placing values: \<^verbatim>\<open>pad_array\<close> and \<^verbatim>\<open>append_value\<close>\<close>

text \<open>
  The class \<^verbatim>\<open>FIndex\<close> (\<^verbatim>\<open>f90nml/findex.py\<close>) is not part of the sources at hand. The
  parser uses two things of an index object \<^verbatim>\<open>v_idx\<close>: the attribute \<^verbatim>\<open>first\<close>, a list with
  the first index of every dimension (\<^verbatim>\<open>None\<close> where unknown), which \<^verbatim>\<open>parse_variable\<close>
  overwrites, and \<^verbatim>\<open>next(v_idx)\<close>, which yields the next coordinate tuple. The record
  keeps \<open>first\<close> and, for the iterator, the coordinates it will yield from now on.
\<close>

record findex =
  first :: "int option list"
  pending :: "int list list"

text \<open>
  A Python list index: \<^verbatim>\<open>xs[k]\<close> counts from the end for negative \<open>k\<close> and raises
  \<^verbatim>\<open>IndexError\<close> (\<open>None\<close>) outside \<open>-len(xs) \<dots> len(xs) - 1\<close>.
\<close>

definition py_index :: "'a list \<Rightarrow> int \<Rightarrow> nat option" where
  "py_index xs k =
     (let n = int (length xs)
      in if 0 \<le> k \<and> k < n then Some (nat k)
         else if - n \<le> k \<and> k < 0 then Some (nat (n + k))
         else None)"

text \<open>\<^verbatim>\<open>v.extend(x for _ in range(len(v), n))\<close> with a fresh \<open>x\<close> for every new entry.\<close>

definition extend_to :: "val list \<Rightarrow> int \<Rightarrow> val \<Rightarrow> val list" where
  "extend_to v n x = v @ replicate (nat (n - int (length v))) x"

text \<open>The first exception of a sequence of calls, or all their results.\<close>

fun collect :: "(error + 'a) list \<Rightarrow> error + 'a list" where
  "collect [] = Inr []"
| "collect (Inl e # rs) = Inl e"
| "collect (Inr x # rs) = (case collect rs of Inl e \<Rightarrow> Inl e | Inr xs \<Rightarrow> Inr (x # xs))"

text \<open>
  \<^verbatim>\<open>
  def pad_array(v, idx):
      i_v, i_s = idx[0]
      if len(idx) > 1:
          # Append missing subarrays
          v.extend([[] for _ in range(len(v), i_v - i_s + 1)])
          # Pad elements
          for e in v:
              pad_array(e, idx[1:])
      else:
          v.extend([None for _ in range(len(v), i_v - i_s + 1)])
  \<close>
  The list is changed in place; the model returns the changed list. \<^verbatim>\<open>extend\<close> exists on
  lists only, so every other value raises (\<^verbatim>\<open>AttributeError\<close>).
\<close>

fun pad_array :: "val \<Rightarrow> (int \<times> int) list \<Rightarrow> error + val" where
  "pad_array v [] = Inl IndexError"
| "pad_array v ((i_v, i_s) # rest) =
     (case v of
        VList xs \<Rightarrow>
          if rest \<noteq> [] then
            (case collect (map (\<lambda>e. pad_array e rest) (extend_to xs (i_v - i_s + 1) (VList []))) of
               Inl e \<Rightarrow> Inl e
             | Inr xs' \<Rightarrow> Inr (VList xs'))
          else Inr (VList (extend_to xs (i_v - i_s + 1) VNone))
      | _ \<Rightarrow> Inl AttributeError)"

text \<open>
  The walk of \<^verbatim>\<open>append_value\<close> into the nested lists and the assignment at the deepest
  level:
  \<^verbatim>\<open>
  v_subval = v_values
  for (i_v, i_s) in zip(v_i[:-1], v_s[:-1]):
      try:
          v_subval = v_subval[i_v - i_s]
      except IndexError:
          size = len(v_subval)
          v_subval.extend([] for _ in range(size, i_v - i_s + 1))
          v_subval = v_subval[i_v - i_s]
  i_v, i_s = v_i[-1], v_s[-1]
  try:
      v_subval[i_v - i_s] = next_value
  except IndexError:
      size = len(v_subval)
      v_subval.extend(None for _ in range(size, i_v - i_s + 1))
      v_subval[i_v - i_s] = next_value
  \<close>
  \<open>place v upper final x\<close> is the list \<open>v\<close> after the walk along \<open>upper\<close> and the
  assignment of \<open>x\<close> at \<open>final\<close>. The inner lists are changed in place in Python, so the
  outer lists see the change; the model rebuilds them. A value that is not a list cannot
  be walked into or assigned to: the model raises \<^verbatim>\<open>TypeError\<close> for all of them (Python
  raises an exception for each too, not always of this class).
\<close>

fun place :: "val \<Rightarrow> (int \<times> int) list \<Rightarrow> int \<times> int \<Rightarrow> val \<Rightarrow> error + val" where
  "place v [] (i_v, i_s) x =
     (case v of
        VList xs \<Rightarrow>
          (case py_index xs (i_v - i_s) of
             Some j \<Rightarrow> Inr (VList (xs[j := x]))
           | None \<Rightarrow>
               (let xs' = extend_to xs (i_v - i_s + 1) VNone
                in case py_index xs' (i_v - i_s) of
                     Some j \<Rightarrow> Inr (VList (xs'[j := x]))
                   | None \<Rightarrow> Inl IndexError))
      | _ \<Rightarrow> Inl TypeError)"
| "place v ((i_v, i_s) # upper) final x =
     (case v of
        VList xs \<Rightarrow>
          (case py_index xs (i_v - i_s) of
             Some j \<Rightarrow>
               (case place (xs ! j) upper final x of
                  Inl e \<Rightarrow> Inl e
                | Inr v' \<Rightarrow> Inr (VList (xs[j := v'])))
           | None \<Rightarrow>
               (let xs' = extend_to xs (i_v - i_s + 1) (VList [])
                in case py_index xs' (i_v - i_s) of
                     Some j \<Rightarrow>
                       (case place (xs' ! j) upper final x of
                          Inl e \<Rightarrow> Inl e
                        | Inr v' \<Rightarrow> Inr (VList (xs'[j := v'])))
                   | None \<Rightarrow> Inl IndexError))
      | _ \<Rightarrow> Inl TypeError)"

text \<open>
  One round of the loop of \<^verbatim>\<open>append_value\<close> for an index object:
  \<^verbatim>\<open>
  v_i = next(v_idx)
  v_s = [self.default_start_index if idx is None else idx
         for idx in v_idx.first]
  if not self.row_major:
      v_i = v_i[::-1]
      v_s = v_s[::-1]
  # Multidimensional arrays
  if not self.sparse_arrays:
      pad_array(v_values, list(zip(v_i, v_s)))
  ...                                  # place
  \<close>
  \<^verbatim>\<open>v_i[-1]\<close> and \<^verbatim>\<open>v_s[-1]\<close> raise \<^verbatim>\<open>IndexError\<close> on an empty sequence.
\<close>

definition placement_order :: "parser \<Rightarrow> 'a list \<Rightarrow> 'a list" where
  "placement_order st xs = (if \<not> row_major st then rev xs else xs)"

definition append_indexed :: "parser \<Rightarrow> val list \<Rightarrow> val \<Rightarrow> findex \<Rightarrow> error + (val list \<times> findex)" where
  "append_indexed st v_values next_value v_idx =
     (case pending v_idx of
        [] \<Rightarrow> Inl StopIteration
      | c # cs \<Rightarrow>
          (let v_i = placement_order st c;
               v_s = placement_order st
                       (map (\<lambda>idx. case idx of None \<Rightarrow> default_start_index st | Some i \<Rightarrow> i)
                            (first v_idx))
           in case (if \<not> sparse_arrays st then pad_array (VList v_values) (zip v_i v_s)
                    else Inr (VList v_values)) of
                Inl e \<Rightarrow> Inl e
              | Inr padded \<Rightarrow>
                  if v_i = [] \<or> v_s = [] then Inl IndexError
                  else
                    (case place padded (zip (butlast v_i) (butlast v_s)) (last v_i, last v_s)
                            next_value of
                       Inl e \<Rightarrow> Inl e
                     | Inr (VList v_values') \<Rightarrow> Inr (v_values', v_idx\<lparr>pending := cs\<rparr>)
                     | Inr _ \<Rightarrow> Inl TypeError)))"

text \<open>
  \<^verbatim>\<open>
  def append_value(self, v_values, next_value, v_idx=None, n_vals=1):
      for _ in range(n_vals):
          if v_idx:
              ...                          # append_indexed
          else:
              v_values.append(next_value)
  \<close>
  \<open>append_value\<close> takes the number of rounds still to run, \<open>nat n_vals\<close> for the
  integer \<^verbatim>\<open>n_vals\<close> (\<^verbatim>\<open>range\<close> is empty for a negative number). An index object is
  always true in \<^verbatim>\<open>if v_idx:\<close>; \<open>None\<close> is the absent one.
\<close>

fun append_value ::
  "parser \<Rightarrow> val list \<Rightarrow> val \<Rightarrow> findex option \<Rightarrow> nat \<Rightarrow> error + (val list \<times> findex option)" where
  "append_value st v_values next_value v_idx 0 = Inr (v_values, v_idx)"
| "append_value st v_values next_value None (Suc n) =
     append_value st (v_values @ [next_value]) next_value None n"
| "append_value st v_values next_value (Some idx) (Suc n) =
     (case append_indexed st v_values next_value idx of
        Inl e \<Rightarrow> Inl e
      | Inr (v_values', idx') \<Rightarrow> append_value st v_values' next_value (Some idx') n)"


section \<open>Arrays that only grow\<close>


text \<open>
  \<open>rank_ok d v\<close>: \<open>v\<close> is an array of \<open>d\<close> dimensions: lists nested \<open>d\<close> deep with
  entries that are not lists (unset, scalars or records). This is the shape of the list
  \<^verbatim>\<open>v_values\<close> that \<^verbatim>\<open>parse_variable\<close> builds for an index of \<open>d\<close> dimensions: it starts
  empty and every value placed is \<^verbatim>\<open>None\<close>, a scalar or a \<^verbatim>\<open>Namelist\<close>.
\<close>

fun rank_ok :: "nat \<Rightarrow> val \<Rightarrow> bool" where
  "rank_ok 0 v = (\<not> is_list v)"
| "rank_ok (Suc d) (VList xs) = list_all (rank_ok d) xs"
| "rank_ok (Suc d) v = False"

section \<open>Groups and the reconciliation of start indices\<close>

text \<open>
  \<^verbatim>\<open>str.lower()\<close> on ASCII letters.
\<close>

definition lower_char :: "char \<Rightarrow> char" where
  "lower_char c =
     (if 65 \<le> (of_char c :: nat) \<and> (of_char c :: nat) \<le> 90
      then char_of ((of_char c :: nat) + 32) else c)"

definition lower :: "string \<Rightarrow> string" where
  "lower s = map lower_char s"

text \<open>
  Modelled from the spec: the class \<^verbatim>\<open>Namelist\<close> (\<^verbatim>\<open>f90nml/namelist.py\<close>) is not part of
  the sources at hand. The specification describes a Group as an ordered mapping from
  variable name (case-insensitive) to a value, which also holds a mapping from variable
  name to its start-index vector, one integer or unset per dimension. \<open>vars\<close> are the
  items of the mapping, under lower-case keys; \<open>start_index\<close> is the attribute
  \<^verbatim>\<open>parent.start_index\<close>, a plain dictionary that the parser itself reads and writes with
  the keys it chooses. An assignment \<^verbatim>\<open>parent[key] = value\<close> stores the value as it is given.
\<close>

record group =
  vars :: "(string \<times> val) list"
  start_index :: "(string \<times> int option list) list"

definition nml_contains :: "group \<Rightarrow> string \<Rightarrow> bool" where
  "nml_contains g key = (map_of (vars g) (lower key) \<noteq> None)"

definition nml_get :: "group \<Rightarrow> string \<Rightarrow> val option" where
  "nml_get g key = map_of (vars g) (lower key)"

definition nml_set :: "group \<Rightarrow> string \<Rightarrow> val \<Rightarrow> group" where
  "nml_set g key v = g\<lparr>vars := AList.update (lower key) v (vars g)\<rparr>"

text \<open>
  \<^verbatim>\<open>
  pad = [None for _ in range(n)]
  parent[v_name] = pad + parent[v_name]
  \<close>
  A missing key raises \<^verbatim>\<open>KeyError\<close>; a value that is not a list cannot be added to the list \<^verbatim>\<open>pad\<close> (\<^verbatim>\<open>TypeError\<close>).
\<close>

definition prepend_none :: "int \<Rightarrow> string \<Rightarrow> group \<Rightarrow> error + group" where
  "prepend_none n v_name parent =
     (case nml_get parent v_name of
        None \<Rightarrow> Inl KeyError
      | Some (VList xs) \<Rightarrow> Inr (nml_set parent v_name (VList (replicate (nat n) VNone @ xs)))
      | Some _ \<Rightarrow> Inl TypeError)"

text \<open>
  The first loop of the reconciliation for an indexed variable:
  \<^verbatim>\<open>
  for idx, pv in enumerate(zip(p_idx, v_idx.first)):
      if all(i is None for i in pv):
          i_first = None
      else:
          i_first = min(i for i in pv if i is not None)
      v_idx.first[idx] = i_first
  \<close>
  \<^verbatim>\<open>zip\<close> stops at the shorter list; entries of \<^verbatim>\<open>v_idx.first\<close> beyond stay as they are.
\<close>

fun i_first :: "int option \<Rightarrow> int option \<Rightarrow> int option" where
  "i_first None None = None"
| "i_first (Some p) None = Some p"
| "i_first None (Some v) = Some v"
| "i_first (Some p) (Some v) = Some (min p v)"

fun lowest_first :: "int option list \<Rightarrow> int option list \<Rightarrow> int option list" where
  "lowest_first (p # p_idx) (v # v_first) = i_first p v # lowest_first p_idx v_first"
| "lowest_first p_idx v_first = v_first"

text \<open>
  The second loop:
  \<^verbatim>\<open>
  # Resize vector based on starting index
  for i_p, i_v in zip(p_idx, v_idx.first):
      if i_p is not None and i_v is not None and i_v < i_p:
          pad = [None for _ in range(i_p - i_v)]
          parent[v_name] = pad + parent[v_name]
  \<close>
\<close>

fun resize :: "int option list \<Rightarrow> int option list \<Rightarrow> string \<Rightarrow> group \<Rightarrow> error + group" where
  "resize (Some i_p # p_idx) (Some i_v # v_first) v_name parent =
     (if i_v < i_p then
        (case prepend_none (i_p - i_v) v_name parent of
           Inl e \<Rightarrow> Inl e
         | Inr parent' \<Rightarrow> resize p_idx v_first v_name parent')
      else resize p_idx v_first v_name parent)"
| "resize (i_p # p_idx) (i_v # v_first) v_name parent = resize p_idx v_first v_name parent"
| "resize p_idx v_first v_name parent = Inr parent"

text \<open>
  The reconciliation for an indexed variable, lines 404 to 430 of \<^verbatim>\<open>parse_variable\<close>:
  \<^verbatim>\<open>
  # Update starting index against namelist record
  if v_name.lower() in parent.start_index:
      p_idx = parent.start_index[v_name.lower()]
      ...                                  # lowest_first, resize
  else:
      # If variable already existed without an index, then assume a
      #   1-based index
      if v_name in parent:
          v_idx.first = [self.default_start_index
                         for _ in v_idx.first]
  parent.start_index[v_name.lower()] = v_idx.first
  \<close>
  The result is the new \<^verbatim>\<open>v_idx.first\<close> and the updated group.
\<close>

definition reindex_indexed ::
  "parser \<Rightarrow> string \<Rightarrow> group \<Rightarrow> int option list \<Rightarrow> error + (int option list \<times> group)" where
  "reindex_indexed st v_name parent v_first =
     (case map_of (start_index parent) (lower v_name) of
        Some p_idx \<Rightarrow>
          (let v_first' = lowest_first p_idx v_first
           in case resize p_idx v_first' v_name parent of
                Inl e \<Rightarrow> Inl e
              | Inr parent' \<Rightarrow>
                  Inr (v_first',
                       parent'\<lparr>start_index :=
                         AList.update (lower v_name) v_first' (start_index parent')\<rparr>))
      | None \<Rightarrow>
          (let v_first' = (if nml_contains parent v_name
                           then map (\<lambda>_. Some (default_start_index st)) v_first
                           else v_first)
           in Inr (v_first',
                   parent\<lparr>start_index :=
                     AList.update (lower v_name) v_first' (start_index parent)\<rparr>)))"

text \<open>
  The reconciliation for a variable without index, lines 451 to 461:
  \<^verbatim>\<open>
  if v_name in parent.start_index:
      p_start = parent.start_index[v_name.lower()]
      v_start = [self.default_start_index for _ in p_start]
      # Resize vector based on new starting index
      for i_p, i_v in zip(p_start, v_start):
          if i_v < i_p:
              pad = [None for _ in range(i_p - i_v)]
              parent[v_name] = pad + parent[v_name]
      parent.start_index[v_name.lower()] = v_start
  \<close>
  The membership test uses \<^verbatim>\<open>v_name\<close> as written, the lookup its lower-case form.
  \<^verbatim>\<open>i_v < i_p\<close> raises \<^verbatim>\<open>TypeError\<close> (Python 3) when the recorded start \<^verbatim>\<open>i_p\<close> is \<^verbatim>\<open>None\<close>.
\<close>

fun resize_default :: "int option list \<Rightarrow> int \<Rightarrow> string \<Rightarrow> group \<Rightarrow> error + group" where
  "resize_default [] i_v v_name parent = Inr parent"
| "resize_default (None # p_start) i_v v_name parent = Inl TypeError"
| "resize_default (Some i_p # p_start) i_v v_name parent =
     (if i_v < i_p then
        (case prepend_none (i_p - i_v) v_name parent of
           Inl e \<Rightarrow> Inl e
         | Inr parent' \<Rightarrow> resize_default p_start i_v v_name parent')
      else resize_default p_start i_v v_name parent)"

definition reindex_unindexed :: "parser \<Rightarrow> string \<Rightarrow> group \<Rightarrow> error + group" where
  "reindex_unindexed st v_name parent =
     (if map_of (start_index parent) v_name \<noteq> None then
        (case map_of (start_index parent) (lower v_name) of
           None \<Rightarrow> Inl KeyError
         | Some p_start \<Rightarrow>
             (case resize_default p_start (default_start_index st) v_name parent of
                Inl e \<Rightarrow> Inl e
              | Inr parent' \<Rightarrow>
                  Inr (parent'\<lparr>start_index :=
                         AList.update (lower v_name)
                           (map (\<lambda>_. Some (default_start_index st)) p_start)
                           (start_index parent')\<rparr>)))
      else Inr parent)"

text \<open>
  The number of unset entries that the resize loops put in front of the array: for every
  dimension whose new start \<open>i_v\<close> lies below the recorded start \<open>i_p\<close>, one entry per
  index from \<open>i_v\<close> up to \<open>i_p - 1\<close>.
\<close>

fun pad_count :: "int option list \<Rightarrow> int option list \<Rightarrow> nat" where
  "pad_count (Some i_p # p_idx) (Some i_v # v_first) =
     (if i_v < i_p then nat (i_p - i_v) else 0) + pad_count p_idx v_first"
| "pad_count (i_p # p_idx) (i_v # v_first) = pad_count p_idx v_first"
| "pad_count p_idx v_first = 0"

section \<open>Parsing a variable\<close>

text \<open>
  What the parser calls from modules that are not part of the sources at hand, taken as
  parameters: the constructor \<^verbatim>\<open>FIndex(bounds, first)\<close> of \<^verbatim>\<open>f90nml/findex.py\<close>; the
  conversions \<^verbatim>\<open>pyfloat\<close>, \<^verbatim>\<open>pycomplex\<close>, \<^verbatim>\<open>pybool\<close>, \<^verbatim>\<open>pystr\<close> of \<^verbatim>\<open>f90nml/fpy.py\<close>, which
  \<^verbatim>\<open>parse_value\<close> tries in this order after \<^verbatim>\<open>int\<close> (\<open>recast strict_logical v_str\<close> is the
  value of the first that succeeds, the last always does); and the methods \<^verbatim>\<open>f90repr\<close>
  and \<^verbatim>\<open>var_strings\<close> of \<^verbatim>\<open>Namelist\<close>, which render a value and the assignments of a
  variable as text.
\<close>

record ext =
  FIndex :: "triplet list \<Rightarrow> int option \<Rightarrow> findex"
  recast :: "bool \<Rightarrow> string \<Rightarrow> val"
  f90repr :: "val \<Rightarrow> string"
  var_strings :: "string \<Rightarrow> val \<Rightarrow> string list"

text \<open>\<^verbatim>\<open>'{0}'.format(tok)\<close> for a token that may still be \<^verbatim>\<open>None\<close>.\<close>

definition format_token :: "string option \<Rightarrow> string" where
  "format_token t = (case t of None \<Rightarrow> ''None'' | Some s \<Rightarrow> s)"

text \<open>
  \<^verbatim>\<open>
  def parse_value(self, write_token=True, override=None):
      v_str = self.prior_token
      # Construct the complex string
      if v_str == '(':
          v_re = self.token
          self.update_tokens(write_token)
          assert self.token == ','
          self.update_tokens(write_token)
          v_im = self.token
          self.update_tokens(write_token)
          assert self.token == ')'
          self.update_tokens(write_token, override)
          v_str = '({0}, {1})'.format(v_re, v_im)
      recast_funcs = [int, pyfloat, pycomplex, pybool, pystr]
      for f90type in recast_funcs:
          try:
              ...
              return value
          except ValueError:
              continue
  \<close>
  \<^verbatim>\<open>int(None)\<close> raises \<^verbatim>\<open>TypeError\<close>, which the loop does not catch.
\<close>

definition parse_value ::
  "ext \<Rightarrow> bool \<Rightarrow> string option \<Rightarrow> parser \<Rightarrow> (error \<times> parser) + (val \<times> parser)" where
  "parse_value x write_token override st =
     (case (if prior_token st = Some ''('' then
              (let v_re = token st
               in case update_tokens write_token None False st of
                    Inl e \<Rightarrow> Inl e
                  | Inr st1 \<Rightarrow>
                      if token st1 \<noteq> Some '','' then Inl (AssertionError, st1)
                      else
                        (case update_tokens write_token None False st1 of
                           Inl e \<Rightarrow> Inl e
                         | Inr st2 \<Rightarrow>
                             (let v_im = token st2
                              in case update_tokens write_token None False st2 of
                                   Inl e \<Rightarrow> Inl e
                                 | Inr st3 \<Rightarrow>
                                     if token st3 \<noteq> Some '')'' then Inl (AssertionError, st3)
                                     else
                                       (case update_tokens write_token override False st3 of
                                          Inl e \<Rightarrow> Inl e
                                        | Inr st4 \<Rightarrow>
                                            Inr (Some (''('' @ format_token v_re @ '', ''
                                                       @ format_token v_im @ '')''), st4)))))
            else Inr (prior_token st, st)) of
        Inl e \<Rightarrow> Inl e
      | Inr (None, st') \<Rightarrow> Inl (TypeError, st')
      | Inr (Some v_str, st') \<Rightarrow>
          Inr (case py_int v_str of
                 Some n \<Rightarrow> VInt n
               | None \<Rightarrow> recast x (strict_logical st') v_str, st'))"

text \<open>
  \<^verbatim>\<open>
  def parse_indices(self):
      v_name = self.prior_token
      v_indices = []
      while self.token in (',', '('):
          v_indices.append(self.parse_index(v_name))
      return v_indices
  \<close>
\<close>

lemma skip_padding_length:
  "skip_padding st sk pv pt nt ts = Inr (pt', nt', ts') \<Longrightarrow> length ts' \<le> length ts"
proof (induction st sk pv pt nt ts rule: skip_padding.induct)
  case (1 st sk pv pt nt ts)
  show ?case
  proof (cases nt)
    case Nil
    with "1.prems" show ?thesis by (simp add: skip_padding.simps)
  next
    case (Cons c cs)
    show ?thesis
    proof (cases "c \<in> set (comment_tokens st @ whitespace)")
      case False
      with "1.prems" Cons show ?thesis by (simp add: skip_padding.simps)
    next
      case True
      let ?step = "(if pfile st \<noteq> None then
                     (if c \<in> set (comment_tokens st) then
                        (case comment_run pt nt ts of
                           None \<Rightarrow> None
                         | Some (p, n, ts1) \<Rightarrow> Some (p @ n, n, ts1))
                      else Some (pt @ nt, nt, ts))
                   else Some (pt, nt, ts))"
      from "1.prems" Cons True obtain p n t ts2 where
        step: "?step = Some (p, n, t # ts2)"
        and rec: "skip_padding st sk pv p t ts2 = Inr (pt', nt', ts')"
        by (subst (asm) skip_padding.simps)
           (auto split: option.splits list.splits if_splits)
      have "length (t # ts2) \<le> length ts"
        using step by (auto split: if_splits option.splits dest: comment_run_length)
      moreover have "length ts' \<le> length ts2"
        using "1.IH" [OF Cons True step refl refl refl rec] .
      ultimately show ?thesis by simp
    qed
  qed
qed

lemma update_tokens_length:
  "update_tokens w ov sk st = Inr st' \<Longrightarrow> length (tokens st') < length (tokens st)"
  by (auto simp: update_tokens_def pfile_write_def
      split: list.splits option.splits sum.splits if_splits dest!: skip_padding_length)

lemma parse_index_start_length:
  "parse_index_start v st = Inr (r, st') \<Longrightarrow> length (tokens st') \<le> length (tokens st)"
  by (auto simp: parse_index_start_def split: sum.splits error.splits if_splits
      dest!: update_tokens_length)

lemma parse_index_end_length:
  "parse_index_end v s st = Inr (r, st') \<Longrightarrow> length (tokens st') \<le> length (tokens st)"
  by (auto simp: parse_index_end_def split: sum.splits error.splits if_splits
      dest!: update_tokens_length)

lemma parse_index_stride_length:
  "parse_index_stride v st = Inr (r, st') \<Longrightarrow> length (tokens st') \<le> length (tokens st)"
  by (auto simp: parse_index_stride_def split: sum.splits error.splits if_splits
      dest!: update_tokens_length)

lemma parse_index_length:
  "parse_index v st = Inr (r, st') \<Longrightarrow> length (tokens st') < length (tokens st)"
  by (auto simp: parse_index_def split: sum.splits if_splits
      dest!: update_tokens_length parse_index_start_length parse_index_end_length
        parse_index_stride_length)

function parse_indices_loop ::
  "string \<Rightarrow> triplet list \<Rightarrow> parser \<Rightarrow> (error \<times> parser) + (triplet list \<times> parser)" where
  "parse_indices_loop v_name v_indices st =
     (if token st \<in> {Some '','', Some ''(''} then
        (case parse_index v_name st of
           Inl e \<Rightarrow> Inl e
         | Inr (idx_triplet, st') \<Rightarrow> parse_indices_loop v_name (v_indices @ [idx_triplet]) st')
      else Inr (v_indices, st))"
  by pat_completeness auto

termination
  by (relation "measure (\<lambda>(v_name, v_indices, st). length (tokens st))")
     (auto dest: parse_index_length)

declare parse_indices_loop.simps [simp del]

definition parse_indices :: "parser \<Rightarrow> (error \<times> parser) + (triplet list \<times> parser)" where
  "parse_indices st = parse_indices_loop (format_token (prior_token st)) [] st"

section \<open>The value list of a variable\<close>

text \<open>
  The locals of the value loop of \<^verbatim>\<open>parse_variable\<close> that change from round to round:
  the list \<^verbatim>\<open>v_values\<close>, the index object \<^verbatim>\<open>v_idx\<close> (\<open>None\<close> for a variable without
  index), the repeat factor \<^verbatim>\<open>n_vals\<close> and the position \<^verbatim>\<open>p_idx\<close> in the patch values
  (\<open>patch_idx\<close>; the name \<^verbatim>\<open>p_idx\<close> also stands for the recorded start indices).
\<close>

record vstate =
  v_values :: "val list"
  v_idx :: "findex option"
  n_vals :: "int option"
  patch_idx :: nat

text \<open>
  The condition of the loop:
  \<^verbatim>\<open>
  while (self.token not in ('=', '(', '%') or
         (self.prior_token, self.token) in (('=', '('), (',', '('))):
  \<close>
\<close>

definition more_values :: "parser \<Rightarrow> bool" where
  "more_values st =
     (token st \<notin> {Some ''='', Some ''('', Some ''%''}
      \<or> (prior_token st, token st) \<in> {(Some ''='', Some ''(''), (Some '','', Some ''('')})"

text \<open>
  \<^verbatim>\<open>assert isinstance(n_vals, int)\<close>: integers pass, and so do booleans, which Python
  counts as the integers 1 and 0.
\<close>

fun as_int :: "val \<Rightarrow> int option" where
  "as_int (VInt n) = Some n"
| "as_int (VBool b) = Some (if b then 1 else 0)"
| "as_int v = None"

text \<open>
  The repeat factor:
  \<^verbatim>\<open>
  # Check for repeated values
  if self.token == '*':
      n_vals = self.parse_value()
      assert isinstance(n_vals, int)
      self.update_tokens()
  elif not n_vals:
      n_vals = 1
  \<close>
\<close>

definition repeat_factor :: "ext \<Rightarrow> int option \<Rightarrow> parser \<Rightarrow> (error \<times> parser) + (int \<times> parser)" where
  "repeat_factor x n st =
     (if token st = Some ''*'' then
        (case parse_value x True None st of
           Inl e \<Rightarrow> Inl e
         | Inr (v, st1) \<Rightarrow>
             (case as_int v of
                None \<Rightarrow> Inl (AssertionError, st1)
              | Some k \<Rightarrow> (case advance st1 of Inl e \<Rightarrow> Inl e | Inr st2 \<Rightarrow> Inr (k, st2))))
      else Inr ((case n of None \<Rightarrow> 1 | Some k \<Rightarrow> if k = 0 then 1 else k), st))"

text \<open>\<^verbatim>\<open>self.append_value(v_values, next_value, v_idx, n_vals)\<close> on the locals.\<close>

definition append_to :: "vstate \<Rightarrow> val \<Rightarrow> int \<Rightarrow> parser \<Rightarrow> (error \<times> parser) + (vstate \<times> parser)" where
  "append_to vs next_value k st =
     (case append_value st (v_values vs) next_value (v_idx vs) (nat k) of
        Inl e \<Rightarrow> Inl (e, st)
      | Inr (vals, idx) \<Rightarrow> Inr (vs\<lparr>v_values := vals, v_idx := idx\<rparr>, st))"

text \<open>
  The value of the round:
  \<^verbatim>\<open>
  # First check for implicit null values
  if self.prior_token in ('=', '%', ','):
      if (self.token in (',', '/', '&', '$') and
              not (self.prior_token == ',' and
                   self.token in ('/', '&', '$'))):
          self.append_value(v_values, None, v_idx, n_vals)
  elif self.prior_token == '*':
      if self.token not in ('/', '&', '$'):
          self.update_tokens()
      if (self.token == '=' or (self.token in ('/', '&', '$') and
                                self.prior_token == '*')):
          next_value = None
      else:
          next_value = self.parse_value()
      self.append_value(v_values, next_value, v_idx, n_vals)
  else:
      next_value = self.parse_value()
      self.append_value(v_values, next_value, v_idx, n_vals)
  \<close>
\<close>

definition read_value :: "ext \<Rightarrow> vstate \<Rightarrow> int \<Rightarrow> parser \<Rightarrow> (error \<times> parser) + (vstate \<times> parser)" where
  "read_value x vs k st =
     (if prior_token st \<in> {Some ''='', Some ''%'', Some '',''} then
        (if token st \<in> {Some '','', Some ''/'', Some ''&'', Some ''$''}
            \<and> \<not> (prior_token st = Some '','' \<and> token st \<in> {Some ''/'', Some ''&'', Some ''$''})
         then append_to vs VNone k st
         else Inr (vs, st))
      else if prior_token st = Some ''*'' then
        (case (if token st \<notin> {Some ''/'', Some ''&'', Some ''$''} then advance st else Inr st) of
           Inl e \<Rightarrow> Inl e
         | Inr st1 \<Rightarrow>
             (case (if token st1 = Some ''=''
                       \<or> (token st1 \<in> {Some ''/'', Some ''&'', Some ''$''}
                           \<and> prior_token st1 = Some ''*'')
                    then Inr (VNone, st1) else parse_value x True None st1) of
                Inl e \<Rightarrow> Inl e
              | Inr (next_value, st2) \<Rightarrow> append_to vs next_value k st2))
      else
        (case parse_value x True None st of
           Inl e \<Rightarrow> Inl e
         | Inr (next_value, st1) \<Rightarrow> append_to vs next_value k st1))"

text \<open>
  The end of the round, when the loop does not stop at a terminator:
  \<^verbatim>\<open>
  if patch_values:
      if (p_idx < len(patch_values) and
              len(patch_values) > 0 and self.token != ','):
          p_val = patch_values[p_idx]
          p_repr = patch_nml.f90repr(patch_values[p_idx])
          p_idx += 1
          self.update_tokens(override=p_repr)
          if isinstance(p_val, complex):
              # Skip over the complex content
              # NOTE: Assumes input and patch are complex
              self.update_tokens(write_token=False)
              self.update_tokens(write_token=False)
              self.update_tokens(write_token=False)
              self.update_tokens(write_token=False)
      else:
          # Skip any values beyond the patch size
          skip = (p_idx >= len(patch_values))
          self.update_tokens(patch_skip=skip)
  else:
      self.update_tokens()
  \<close>
  \<open>patch_values\<close> is \<open>None\<close> when the variable is not in the patch; \<^verbatim>\<open>if patch_values:\<close>
  is false for \<^verbatim>\<open>None\<close> and for the empty list.
\<close>

fun is_complex :: "val \<Rightarrow> bool" where
  "is_complex (VComplex s) = True"
| "is_complex v = False"

fun skip_tokens :: "nat \<Rightarrow> parser \<Rightarrow> (error \<times> parser) + parser" where
  "skip_tokens 0 st = Inr st"
| "skip_tokens (Suc n) st =
     (case update_tokens False None False st of Inl e \<Rightarrow> Inl e | Inr st' \<Rightarrow> skip_tokens n st')"

definition next_token_patched ::
  "ext \<Rightarrow> val list option \<Rightarrow> vstate \<Rightarrow> parser \<Rightarrow> (error \<times> parser) + (vstate \<times> parser)" where
  "next_token_patched x patch_values vs st =
     (case patch_values of
        Some (p # ps) \<Rightarrow>
          if patch_idx vs < length (p # ps) \<and> token st \<noteq> Some '','' then
            (let p_val = (p # ps) ! patch_idx vs
             in case update_tokens True (Some (f90repr x p_val)) False st of
                  Inl e \<Rightarrow> Inl e
                | Inr st1 \<Rightarrow>
                    (case (if is_complex p_val then skip_tokens 4 st1 else Inr st1) of
                       Inl e \<Rightarrow> Inl e
                     | Inr st2 \<Rightarrow> Inr (vs\<lparr>patch_idx := Suc (patch_idx vs)\<rparr>, st2)))
          else
            (case update_tokens True None (length (p # ps) \<le> patch_idx vs) st of
               Inl e \<Rightarrow> Inl e
             | Inr st1 \<Rightarrow> Inr (vs, st1))
      | _ \<Rightarrow> (case advance st of Inl e \<Rightarrow> Inl e | Inr st1 \<Rightarrow> Inr (vs, st1)))"

text \<open>
  One round of the loop: the repeat factor, the value, \<^verbatim>\<open>n_vals = 1\<close>, and then either
  the \<^verbatim>\<open>break\<close> at a terminator or at \<^verbatim>\<open>=\<close> (\<open>True\<close> in the result) or the step to the
  next token.
\<close>

definition value_round ::
  "ext \<Rightarrow> val list option \<Rightarrow> vstate \<Rightarrow> parser \<Rightarrow> (error \<times> parser) + (bool \<times> vstate \<times> parser)" where
  "value_round x patch_values vs st =
     (case repeat_factor x (n_vals vs) st of
        Inl e \<Rightarrow> Inl e
      | Inr (k, st1) \<Rightarrow>
          (case read_value x vs k st1 of
             Inl e \<Rightarrow> Inl e
           | Inr (vs1, st2) \<Rightarrow>
               (let vs2 = vs1\<lparr>n_vals := Some 1\<rparr>
                in if token st2 \<in> {Some ''/'', Some ''&'', Some ''$'', Some ''=''}
                   then Inr (True, vs2, st2)
                   else
                     (case next_token_patched x patch_values vs2 st2 of
                        Inl e \<Rightarrow> Inl e
                      | Inr (vs3, st3) \<Rightarrow> Inr (False, vs3, st3)))))"

lemma skip_tokens_length:
  "skip_tokens n st = Inr st' \<Longrightarrow> length (tokens st') \<le> length (tokens st)"
proof (induction n arbitrary: st)
  case 0
  then show ?case by simp
next
  case (Suc n)
  from Suc.prems obtain st1 where
    a: "update_tokens False None False st = Inr st1" and b: "skip_tokens n st1 = Inr st'"
    by (auto split: sum.splits)
  from update_tokens_length [OF a] Suc.IH [OF b] show ?case by simp
qed

lemma parse_value_length:
  "parse_value x w ov st = Inr (v, st') \<Longrightarrow> length (tokens st') \<le> length (tokens st)"
  by (auto simp: parse_value_def Let_def split: sum.splits if_splits option.splits
      dest!: update_tokens_length)

lemma repeat_factor_length:
  "repeat_factor x n st = Inr (k, st') \<Longrightarrow> length (tokens st') \<le> length (tokens st)"
  by (auto simp: repeat_factor_def split: sum.splits if_splits option.splits
      dest!: update_tokens_length parse_value_length)

lemma append_to_tokens: "append_to vs v k st = Inr (vs', st') \<Longrightarrow> st' = st"
  by (auto simp: append_to_def split: sum.splits)

lemma read_value_length:
  "read_value x vs k st = Inr (vs', st') \<Longrightarrow> length (tokens st') \<le> length (tokens st)"
  by (auto simp: read_value_def split: sum.splits if_splits
      dest!: update_tokens_length parse_value_length append_to_tokens)

lemma next_token_patched_length:
  "next_token_patched x pv vs st = Inr (vs', st') \<Longrightarrow> length (tokens st') < length (tokens st)"
  by (auto simp: next_token_patched_def Let_def
      split: sum.splits if_splits option.splits list.splits
      dest!: update_tokens_length skip_tokens_length)

lemma value_round_length:
  "value_round x pv vs st = Inr (False, vs', st') \<Longrightarrow> length (tokens st') < length (tokens st)"
  by (auto simp: value_round_def Let_def split: sum.splits if_splits
      dest!: repeat_factor_length read_value_length next_token_patched_length)

lemma value_round_length_le:
  "value_round x pv vs st = Inr (b, vs', st') \<Longrightarrow> length (tokens st') \<le> length (tokens st)"
  by (auto simp: value_round_def Let_def split: sum.splits if_splits
      dest!: repeat_factor_length read_value_length next_token_patched_length)

text \<open>The loop itself.\<close>

function value_loop ::
  "ext \<Rightarrow> val list option \<Rightarrow> vstate \<Rightarrow> parser \<Rightarrow> (error \<times> parser) + (vstate \<times> parser)" where
  "value_loop x patch_values vs st =
     (if more_values st then
        (case value_round x patch_values vs st of
           Inl e \<Rightarrow> Inl e
         | Inr (stop, vs', st') \<Rightarrow>
             if stop then Inr (vs', st') else value_loop x patch_values vs' st')
      else Inr (vs, st))"
  by pat_completeness auto

termination
  by (relation "measure (\<lambda>(x, patch_values, vs, st). length (tokens st))")
     (auto dest: value_round_length)

declare value_loop.simps [simp del]

section \<open>\<^verbatim>\<open>parse_variable\<close>\<close>

text \<open>
  The end of \<^verbatim>\<open>parse_variable\<close>:
  \<^verbatim>\<open>
  if patch_values:
      v_values = patch_values
  if not v_idx:
      v_values = delist(v_values)
  return v_name, v_values
  \<close>
\<close>

definition parse_variable_return :: "val list option \<Rightarrow> findex option \<Rightarrow> val list \<Rightarrow> val" where
  "parse_variable_return patch_values idx vals =
     (let vals' = (case patch_values of Some (p # ps) \<Rightarrow> p # ps | _ \<Rightarrow> vals)
      in if idx = None then delist vals' else VList vals')"


text \<open>
  The index of the derived-type parent, for an indexed variable followed by \<^verbatim>\<open>%\<close>:
  \<^verbatim>\<open>
  if self.token == '%':
      assert v_idx_bounds[0][1] - v_idx_bounds[0][0] == 1
      dt_idx = v_idx_bounds[0][0] - v_idx.first[0]
  \<close>
  A bound or a first index that is \<^verbatim>\<open>None\<close> makes the subtraction raise \<^verbatim>\<open>TypeError\<close>.
\<close>

definition derived_type_index :: "triplet list \<Rightarrow> int option list \<Rightarrow> error + int" where
  "derived_type_index v_idx_bounds v_first =
     (case v_idx_bounds of
        [] \<Rightarrow> Inl IndexError
      | (i_start, i_end, i_stride) # _ \<Rightarrow>
          (case (i_end, i_start) of
             (Some e, Some s) \<Rightarrow>
               if e - s \<noteq> 1 then Inl AssertionError
               else
                 (case v_first of
                    [] \<Rightarrow> Inl IndexError
                  | None # _ \<Rightarrow> Inl TypeError
                  | Some f # _ \<Rightarrow> Inr (s - f))
           | _ \<Rightarrow> Inl TypeError))"

text \<open>
  The head of \<^verbatim>\<open>parse_variable\<close>, up to the test for \<^verbatim>\<open>%\<close>:
  \<^verbatim>\<open>
  # Derived type parent index (see notes below)
  dt_idx = None
  if self.token == '(':
      v_idx_bounds = self.parse_indices()
      v_idx = FIndex(v_idx_bounds, self.global_start_index)
      ...                                  # reindex_indexed
      self.update_tokens()
      ...                                  # derived_type_index
  else:
      v_idx = None
      ...                                  # reindex_unindexed
  \<close>
  The result is the index object, \<^verbatim>\<open>dt_idx\<close>, the updated group and the parser.
\<close>

definition variable_index ::
  "ext \<Rightarrow> string \<Rightarrow> group \<Rightarrow> parser
     \<Rightarrow> (error \<times> parser) + (findex option \<times> int option \<times> group \<times> parser)" where
  "variable_index x v_name parent st =
     (if token st = Some ''('' then
        (case parse_indices st of
           Inl e \<Rightarrow> Inl e
         | Inr (v_idx_bounds, st1) \<Rightarrow>
             (let idx = FIndex x v_idx_bounds (global_start_index st1)
              in case reindex_indexed st1 v_name parent (first idx) of
                   Inl e \<Rightarrow> Inl (e, st1)
                 | Inr (v_first, parent') \<Rightarrow>
                     (case advance st1 of
                        Inl e \<Rightarrow> Inl e
                      | Inr st2 \<Rightarrow>
                          if token st2 = Some ''%'' then
                            (case derived_type_index v_idx_bounds v_first of
                               Inl e \<Rightarrow> Inl (e, st2)
                             | Inr dt_idx \<Rightarrow>
                                 Inr (Some (idx\<lparr>first := v_first\<rparr>), Some dt_idx, parent', st2))
                          else Inr (Some (idx\<lparr>first := v_first\<rparr>), None, parent', st2))))
      else
        (case reindex_unindexed st v_name parent of
           Inl e \<Rightarrow> Inl (e, st)
         | Inr parent' \<Rightarrow> Inr (None, None, parent', st)))"

text \<open>
  The patch values of the variable:
  \<^verbatim>\<open>
  if v_name in patch_nml:
      patch_values = patch_nml.pop(v_name.lower())
      if not isinstance(patch_values, list):
          patch_values = [patch_values]
      p_idx = 0
  \<close>
  The patch of a group is a \<^verbatim>\<open>Namelist\<close>, kept as its items under lower-case keys.
\<close>

definition pop_patch :: "string \<Rightarrow> (string \<times> val) list \<Rightarrow> val list option \<times> (string \<times> val) list" where
  "pop_patch v_name patch_nml =
     (case map_of patch_nml (lower v_name) of
        None \<Rightarrow> (None, patch_nml)
      | Some v \<Rightarrow> (Some (as_list v), AList.delete (lower v_name) patch_nml))"

text \<open>
  Python's truth value of a value, as in \<^verbatim>\<open>if vpar:\<close>: \<^verbatim>\<open>None\<close>, zero, the empty string, the
  empty list and the empty dictionary are false. A floating-point or complex number is
  carried as its literal text; it is zero when its text has no digit from 1 to 9 outside
  an exponent and is not an infinity or a NaN.
\<close>

fun significand :: "bool \<Rightarrow> string \<Rightarrow> string" where
  "significand in_exponent [] = []"
| "significand in_exponent (c # cs) =
     (if c \<in> set ''eEdD'' then significand True cs
      else if in_exponent \<and> (c \<in> set ''+-'' \<or> is_digit c) then significand True cs
      else c # significand False cs)"

definition nonzero_literal :: "string \<Rightarrow> bool" where
  "nonzero_literal s =
     ((\<exists>c \<in> set (significand False s). c \<in> set ''123456789'') \<or> (\<exists>c \<in> set s. c \<in> set ''nN''))"

fun truthy :: "val \<Rightarrow> bool" where
  "truthy VNone = False"
| "truthy (VInt i) = (i \<noteq> 0)"
| "truthy (VBool b) = b"
| "truthy (VStr s) = (s \<noteq> [])"
| "truthy (VFloat s) = nonzero_literal s"
| "truthy (VComplex s) = nonzero_literal s"
| "truthy (VList xs) = (xs \<noteq> [])"
| "truthy (VDict kvs si) = (kvs \<noteq> [])"

text \<open>
  The derived-type branch resolves the record that the field belongs to:
  \<^verbatim>\<open>
  if parent:
      vpar = parent.get(v_name.lower())
      if vpar and isinstance(vpar, list):
          assert dt_idx is not None
          try:
              v_parent = vpar[dt_idx]
          except IndexError:
              v_parent = Namelist()
      elif vpar:
          v_parent = vpar
      else:
          v_parent = Namelist()
  else:
      v_parent = Namelist()
      parent[v_name] = v_parent
  \<close>
  \<^verbatim>\<open>v_parent\<close> is then either a new \<^verbatim>\<open>Namelist\<close> that nothing else refers to, or the very
  object under the key of the variable in \<^verbatim>\<open>parent\<close>, or the very object at an index of the
  list under that key. The recursive call of \<^verbatim>\<open>parse_variable\<close> changes \<^verbatim>\<open>v_parent\<close> in place
  (its start indices and the arrays it pads), and \<^verbatim>\<open>parent\<close> sees the change. The model
  passes values, so it notes where \<^verbatim>\<open>v_parent\<close> lives (\<open>link\<close>) and puts the changed record
  back there (\<open>link_back\<close>).
\<close>

datatype link = Unlinked | AtKey | AtIndex nat

definition derived_parent ::
  "string \<Rightarrow> int option \<Rightarrow> group \<Rightarrow> error + (val \<times> link \<times> group)" where
  "derived_parent v_name dt_idx parent =
     (if vars parent \<noteq> [] then
        (case map_of (vars parent) (lower v_name) of
           None \<Rightarrow> Inr (VDict [] [], Unlinked, parent)
         | Some (VList (y # ys)) \<Rightarrow>
             (case dt_idx of
                None \<Rightarrow> Inl AssertionError
              | Some d \<Rightarrow>
                  (case py_index (y # ys) d of
                     Some j \<Rightarrow> Inr ((y # ys) ! j, AtIndex j, parent)
                   | None \<Rightarrow> Inr (VDict [] [], Unlinked, parent)))
         | Some vpar \<Rightarrow>
             if truthy vpar then Inr (vpar, AtKey, parent)
             else Inr (VDict [] [], Unlinked, parent))
      else Inr (VDict [] [], AtKey, nml_set parent v_name (VDict [] [])))"

definition link_back :: "link \<Rightarrow> string \<Rightarrow> val \<Rightarrow> group \<Rightarrow> group" where
  "link_back lnk v_name v_parent parent =
     (case lnk of
        Unlinked \<Rightarrow> parent
      | AtKey \<Rightarrow> parent\<lparr>vars := AList.update (lower v_name) v_parent (vars parent)\<rparr>
      | AtIndex j \<Rightarrow>
          (case map_of (vars parent) (lower v_name) of
             Some (VList ys) \<Rightarrow>
               parent\<lparr>vars := AList.update (lower v_name) (VList (ys[j := v_parent])) (vars parent)\<rparr>
           | _ \<Rightarrow> parent))"

text \<open>
  The patch of the derived-type variable, handed to the recursive call:
  \<^verbatim>\<open>
  # Check for value in patch
  v_patch_nml = None
  if v_name in patch_nml:
      v_patch_nml = patch_nml.pop(v_name.lower())
  \<close>
  and, at the start of the call, \<^verbatim>\<open>if not patch_nml: patch_nml = Namelist()\<close>. The patch of
  a record is a dictionary; a patch that is false counts as empty. For a patch that is
  true and not a dictionary the model raises \<^verbatim>\<open>TypeError\<close> here (in Python the lookup
  \<^verbatim>\<open>v_name in patch_nml\<close> of the call raises it for a number; for a string or a list the
  call may go on without patch).
\<close>

definition nested_patch ::
  "string \<Rightarrow> (string \<times> val) list \<Rightarrow> error + ((string \<times> val) list \<times> (string \<times> val) list)" where
  "nested_patch v_name patch_nml =
     (case map_of patch_nml (lower v_name) of
        None \<Rightarrow> Inr ([], patch_nml)
      | Some (VDict kvs si) \<Rightarrow> Inr (kvs, AList.delete (lower v_name) patch_nml)
      | Some v \<Rightarrow>
          if truthy v then Inl TypeError
          else Inr ([], AList.delete (lower v_name) patch_nml))"

text \<open>
  \<^verbatim>\<open>parse_variable\<close> called on a \<^verbatim>\<open>v_parent\<close> that is not a \<^verbatim>\<open>Namelist\<close> (a scalar, \<^verbatim>\<open>None\<close> or a
  list found under the name of the variable): its first use of \<^verbatim>\<open>parent.start_index\<close>
  raises \<^verbatim>\<open>AttributeError\<close>, after the indices have been parsed when there are any.
\<close>

definition parse_variable_no_namelist :: "parser \<Rightarrow> (error \<times> parser) + 'a" where
  "parse_variable_no_namelist st =
     (if token st = Some ''('' then
        (case parse_indices st of
           Inl e \<Rightarrow> Inl e
         | Inr (v_idx_bounds, st') \<Rightarrow> Inl (AttributeError, st'))
      else Inl (AttributeError, st))"

lemma parse_indices_loop_length:
  "parse_indices_loop v acc st = Inr (r, st') \<Longrightarrow> length (tokens st') \<le> length (tokens st)"
proof (induction v acc st rule: parse_indices_loop.induct)
  case (1 v_name v_indices st)
  show ?case
  proof (cases "token st \<in> {Some '','', Some ''(''}")
    case False
    with "1.prems" show ?thesis by (simp add: parse_indices_loop.simps)
  next
    case True
    from "1.prems" True obtain t st1 where
      a: "parse_index v_name st = Inr (t, st1)"
      and b: "parse_indices_loop v_name (v_indices @ [t]) st1 = Inr (r, st')"
      by (subst (asm) parse_indices_loop.simps) (auto split: sum.splits)
    from parse_index_length [OF a] "1.IH" [OF True a refl b] show ?thesis by simp
  qed
qed

lemma parse_indices_loop_length_strict:
  "parse_indices_loop v acc st = Inr (r, st') \<Longrightarrow> token st = Some ''(''
     \<Longrightarrow> length (tokens st') < length (tokens st)"
  by (subst (asm) parse_indices_loop.simps)
     (auto split: sum.splits dest!: parse_index_length parse_indices_loop_length)

lemma value_loop_length:
  "value_loop x pv vs st = Inr (vs', st') \<Longrightarrow> length (tokens st') \<le> length (tokens st)"
proof (induction x pv vs st rule: value_loop.induct)
  case (1 x patch_values vs st)
  show ?case
  proof (cases "more_values st")
    case False
    with "1.prems" show ?thesis by (simp add: value_loop.simps)
  next
    case True
    from "1.prems" True obtain stop vs1 st1 where
      a: "value_round x patch_values vs st = Inr (stop, vs1, st1)"
      and b: "if stop then (vs', st') = (vs1, st1)
              else value_loop x patch_values vs1 st1 = Inr (vs', st')"
      by (subst (asm) value_loop.simps) (auto split: sum.splits if_splits)
    show ?thesis
    proof (cases stop)
      case True
      with a b value_round_length_le [OF a] show ?thesis by simp
    next
      case False
      with b have c: "value_loop x patch_values vs1 st1 = Inr (vs', st')" by simp
      from "1.IH" [OF True a refl refl False c] value_round_length_le [OF a]
      show ?thesis by simp
    qed
  qed
qed

lemma variable_index_length:
  "variable_index x v parent st = Inr (idx, dt, parent', st') \<Longrightarrow> length (tokens st') \<le> length (tokens st)"
  by (auto simp: variable_index_def parse_indices_def Let_def split: if_splits sum.splits
      dest!: parse_indices_loop_length update_tokens_length)

text \<open>
  \<^verbatim>\<open>parse_variable(self, parent, patch_nml=None)\<close> up to its last lines. The result is the
  name \<^verbatim>\<open>v_name\<close>, the patch values \<^verbatim>\<open>patch_values\<close>, the index object \<^verbatim>\<open>v_idx\<close> and the value
  list \<^verbatim>\<open>v_values\<close> as they stand before \<^verbatim>\<open>if patch_values:\<close>, with the group \<^verbatim>\<open>parent\<close> and the
  patch \<^verbatim>\<open>patch_nml\<close> as the method leaves them, and the parser.
  \<^verbatim>\<open>
  if self.token == '%':
      ...                                  # nested_patch, derived_parent
      self.update_tokens()
      self.update_tokens()
      v_att, v_att_vals = self.parse_variable(v_parent,
                                              patch_nml=v_patch_nml)
      next_value = Namelist()
      next_value[v_att] = v_att_vals
      self.append_value(v_values, next_value, v_idx)
  else:
      # Construct the variable array
      assert self.token == '='
      n_vals = None
      self.update_tokens()
      ...                                  # pop_patch
      while ...                            # value_loop
  \<close>
  The recursive call is \<open>variable_values\<close> followed by \<^const>\<open>parse_variable_return\<close>, which
  is \<^verbatim>\<open>parse_variable\<close> (defined below). The variable name is the token before the cursor; a
  parser that has not read two tokens yet has none, and the model raises at once where
  Python raises at the first use of the name as a string.
\<close>

function variable_values ::
  "ext \<Rightarrow> parser \<Rightarrow> group \<Rightarrow> (string \<times> val) list
     \<Rightarrow> (error \<times> parser)
         + (string \<times> val list option \<times> findex option \<times> val list
            \<times> group \<times> (string \<times> val) list \<times> parser)" where
  "variable_values x st parent patch_nml =
     (case prior_token st of
        None \<Rightarrow> Inl (AttributeError, st)
      | Some v_name \<Rightarrow>
          (case variable_index x v_name parent st of
             Inl e \<Rightarrow> Inl e
           | Inr (idx, dt_idx, parent1, st1) \<Rightarrow>
               if token st1 = Some ''%'' then
                 (case nested_patch v_name patch_nml of
                    Inl e \<Rightarrow> Inl (e, st1)
                  | Inr (v_patch_nml, patch_nml') \<Rightarrow>
                 (case derived_parent v_name dt_idx parent1 of
                    Inl e \<Rightarrow> Inl (e, st1)
                  | Inr (v_parent, lnk, parent2) \<Rightarrow>
                 (case advance st1 of
                    Inl e \<Rightarrow> Inl e
                  | Inr st2 \<Rightarrow>
                 (case advance st2 of
                    Inl e \<Rightarrow> Inl e
                  | Inr st3 \<Rightarrow>
                 (case v_parent of
                    VDict kvs si \<Rightarrow>
                      (case variable_values x st3 \<lparr>vars = kvs, start_index = si\<rparr> v_patch_nml of
                         Inl e \<Rightarrow> Inl e
                       | Inr (v_att, a_patch, a_idx, a_vals, v_parent', unused, st4) \<Rightarrow>
                           (case append_value st4 []
                                   (VDict [(lower v_att, parse_variable_return a_patch a_idx a_vals)] [])
                                   idx 1 of
                              Inl e \<Rightarrow> Inl (e, st4)
                            | Inr (vals, idx') \<Rightarrow>
                                Inr (v_name, None, idx', vals,
                                     link_back lnk v_name
                                       (VDict (vars v_parent') (start_index v_parent')) parent2,
                                     patch_nml', st4)))
                  | _ \<Rightarrow> parse_variable_no_namelist st3)))))
               else if token st1 \<noteq> Some ''='' then Inl (AssertionError, st1)
               else
                 (case advance st1 of
                    Inl e \<Rightarrow> Inl e
                  | Inr st2 \<Rightarrow>
                      (case pop_patch v_name patch_nml of
                         (patch_values, patch_nml') \<Rightarrow>
                           (case value_loop x patch_values
                                   \<lparr>v_values = [], v_idx = idx, n_vals = None, patch_idx = 0\<rparr> st2 of
                              Inl e \<Rightarrow> Inl e
                            | Inr (vs, st3) \<Rightarrow>
                                Inr (v_name, patch_values, v_idx vs, v_values vs,
                                     parent1, patch_nml', st3))))))"
  by pat_completeness auto

termination
proof (relation "measure (\<lambda>(x, st, parent, patch_nml). length (tokens st))", goal_cases)
  case 1
  show ?case by simp
next
  case (2 x st parent patch_nml v_name r idx rest dt_idx rest2 parent1 st1)
  then show ?case
    by (auto dest!: variable_index_length update_tokens_length)
qed

declare variable_values.simps [simp del]

text \<open>
  \<^verbatim>\<open>parse_variable\<close>: the result is the pair \<^verbatim>\<open>(v_name, v_values)\<close> that the method returns,
  with the group, the patch and the parser.
\<close>

definition parse_variable ::
  "ext \<Rightarrow> parser \<Rightarrow> group \<Rightarrow> (string \<times> val) list
     \<Rightarrow> (error \<times> parser) + ((string \<times> val) \<times> group \<times> (string \<times> val) list \<times> parser)" where
  "parse_variable x st parent patch_nml =
     (case variable_values x st parent patch_nml of
        Inl e \<Rightarrow> Inl e
      | Inr (v_name, patch_values, idx, vals, parent', patch_nml', st') \<Rightarrow>
          Inr ((v_name, parse_variable_return patch_values idx vals), parent', patch_nml', st'))"

lemma variable_values_length:
  "variable_values x st parent patch_nml = Inr (v_name, pv, idx, vals, parent', patch', st')
     \<Longrightarrow> length (tokens st') < length (tokens st)"
proof (induction x st parent patch_nml arbitrary: v_name pv idx vals parent' patch' st'
    rule: variable_values.induct)
  case (1 x st parent patch_nml)
  from "1.prems" obtain name where name: "prior_token st = Some name"
    by (subst (asm) variable_values.simps) (auto split: option.splits)
  from "1.prems" name obtain i dt parent1 st1 where
    vi: "variable_index x name parent st = Inr (i, dt, parent1, st1)"
    by (subst (asm) variable_values.simps) (auto split: sum.splits)
  from vi have le: "length (tokens st1) \<le> length (tokens st)"
    by (rule variable_index_length)
  show ?case
  proof (cases "token st1 = Some ''%''")
    case False
    with "1.prems" name vi have "length (tokens st') < length (tokens st1)"
      by (subst (asm) variable_values.simps)
        (auto split: sum.splits if_splits prod.splits
          dest!: update_tokens_length value_loop_length)
    with le show ?thesis by simp
  next
    case True
    from "1.prems" name vi True obtain v_patch_nml patch1 where
      np: "nested_patch name patch_nml = Inr (v_patch_nml, patch1)"
      by (subst (asm) variable_values.simps) (auto split: sum.splits)
    from "1.prems" name vi True np obtain v_parent lnk parent2 where
      dp: "derived_parent name dt parent1 = Inr (v_parent, lnk, parent2)"
      by (subst (asm) variable_values.simps) (auto split: sum.splits)
    from "1.prems" name vi True np dp obtain st2 where
      a1: "advance st1 = Inr st2"
      by (subst (asm) variable_values.simps) (auto split: sum.splits)
    from "1.prems" name vi True np dp a1 obtain st3 where
      a2: "advance st2 = Inr st3"
      by (subst (asm) variable_values.simps) (auto split: sum.splits)
    from "1.prems" name vi True np dp a1 a2 obtain kvs si where
      vp: "v_parent = VDict kvs si"
      by (subst (asm) variable_values.simps)
        (auto simp: parse_variable_no_namelist_def split: sum.splits val.splits if_splits)
    from "1.prems" name vi True np dp a1 a2 vp obtain v_att a_patch a_idx a_vals v_parent' unused st4 where
      rec: "variable_values x st3 \<lparr>vars = kvs, start_index = si\<rparr> v_patch_nml
              = Inr (v_att, a_patch, a_idx, a_vals, v_parent', unused, st4)"
        and st4: "st' = st4"
      by (subst (asm) variable_values.simps) (auto split: sum.splits)
    have "length (tokens st4) < length (tokens st3)"
      by (rule "1.IH" [OF name vi refl refl refl True np refl dp refl refl a1 a2 vp rec])
    moreover from a1 have "length (tokens st2) < length (tokens st1)"
      by (rule update_tokens_length)
    moreover from a2 have "length (tokens st3) < length (tokens st2)"
      by (rule update_tokens_length)
    ultimately show ?thesis using le st4 by simp
  qed
qed

lemma parse_variable_length:
  "parse_variable x st parent patch_nml = Inr (r, parent', patch', st')
     \<Longrightarrow> length (tokens st') < length (tokens st)"
  by (auto simp: parse_variable_def split: sum.splits dest!: variable_values_length)

section \<open>\<^verbatim>\<open>readstream\<close>\<close>

text \<open>
  The end of a group, at one of the tokens \<^verbatim>\<open>/\<close>, \<^verbatim>\<open>&\<close>, \<^verbatim>\<open>$\<close>:
  \<^verbatim>\<open>
  # Append any remaining patched variables
  for v_name, v_val in grp_patch.items():
      g_vars[v_name] = v_val
      v_strs = nmls.var_strings(v_name, v_val)
      for v_str in v_strs:
          self.pfile.write('    {0}\n'.format(v_str))
  \<close>
  \<^verbatim>\<open>self.pfile.write\<close> raises \<^verbatim>\<open>AttributeError\<close> when there is no patch file.
\<close>

fun write_lines :: "string list \<Rightarrow> parser \<Rightarrow> (error \<times> parser) + parser" where
  "write_lines [] st = Inr st"
| "write_lines (v_str # v_strs) st =
     (case pfile st of
        None \<Rightarrow> Inl (AttributeError, st)
      | Some out \<Rightarrow> write_lines v_strs (st\<lparr>pfile := Some (out @ ''    '' @ v_str @ [CHR 0x0A])\<rparr>))"

fun append_patched ::
  "ext \<Rightarrow> (string \<times> val) list \<Rightarrow> group \<Rightarrow> parser \<Rightarrow> (error \<times> parser) + (group \<times> parser)" where
  "append_patched x [] g_vars st = Inr (g_vars, st)"
| "append_patched x ((v_name, v_val) # items) g_vars st =
     (case write_lines (var_strings x v_name v_val) st of
        Inl e \<Rightarrow> Inl e
      | Inr st' \<Rightarrow> append_patched x items (nml_set g_vars v_name v_val) st')"

text \<open>
  The loop over the tokens of one group:
  \<^verbatim>\<open>
  while g_name:
      if self.token not in ('=', '%', '('):
          self.update_tokens()
      # Set the next active variable
      if self.token in ('=', '(', '%'):
          v_name, v_values = self.parse_variable(g_vars, patch_nml=grp_patch)
          if v_name in g_vars:
              v_prior_values = g_vars[v_name]
              v_values = merge_values(v_prior_values, v_values)
          g_vars[v_name] = v_values
          ...
      # Finalise namelist group
      if self.token in ('/', '&', '$'):
          ...                              # append_patched
          ...                              # nmls[g_name] = g_update, in main_loop
          g_name, g_vars = None, None
  \<close>
  The result is the finished group, the patch of the group without the variables that
  were patched in place, and the parser.
\<close>

definition set_variable :: "group \<Rightarrow> string \<Rightarrow> val \<Rightarrow> group" where
  "set_variable g_vars v_name vals =
     nml_set g_vars v_name
       (case nml_get g_vars v_name of
          None \<Rightarrow> vals
        | Some v_prior_values \<Rightarrow> merge_values v_prior_values vals)"

function group_loop ::
  "ext \<Rightarrow> group \<Rightarrow> (string \<times> val) list \<Rightarrow> parser
     \<Rightarrow> (error \<times> parser) + (group \<times> (string \<times> val) list \<times> parser)" where
  "group_loop x g_vars grp_patch st =
     (case (if token st \<notin> {Some ''='', Some ''%'', Some ''(''} then advance st else Inr st) of
        Inl e \<Rightarrow> Inl e
      | Inr st1 \<Rightarrow>
          (case (if token st1 \<in> {Some ''='', Some ''('', Some ''%''} then
                   (case parse_variable x st1 g_vars grp_patch of
                      Inl e \<Rightarrow> Inl e
                    | Inr ((v_name, vals), g_vars', grp_patch', st2) \<Rightarrow>
                        Inr (set_variable g_vars' v_name vals, grp_patch', st2))
                 else Inr (g_vars, grp_patch, st1)) of
             Inl e \<Rightarrow> Inl e
           | Inr (g_vars1, grp_patch1, st3) \<Rightarrow>
               if token st3 \<in> {Some ''/'', Some ''&'', Some ''$''} then
                 (case append_patched x grp_patch1 g_vars1 st3 of
                    Inl e \<Rightarrow> Inl e
                  | Inr (g_vars2, st4) \<Rightarrow> Inr (g_vars2, grp_patch1, st4))
               else group_loop x g_vars1 grp_patch1 st3))"
  by pat_completeness auto

termination
proof (relation "measure (\<lambda>(x, g_vars, grp_patch, st). length (tokens st))", goal_cases)
  case 1
  show ?case by simp
next
  case (2 x g_vars grp_patch st st1 r g_vars1 rest grp_patch1 st3)
  have a: "length (tokens st1) \<le> length (tokens st)"
    using 2(1) by (auto split: if_splits dest!: update_tokens_length)
  have strict: "token st \<in> {Some ''='', Some ''%'', Some ''(''} \<longrightarrow>
      length (tokens st3) < length (tokens st1)"
    using 2 by (auto split: if_splits sum.splits dest!: parse_variable_length)
  have b: "length (tokens st3) \<le> length (tokens st1)"
    using 2 by (auto split: if_splits sum.splits dest!: parse_variable_length)
  have c: "token st \<notin> {Some ''='', Some ''%'', Some ''(''} \<longrightarrow>
      length (tokens st1) < length (tokens st)"
    using 2(1) by (auto split: if_splits dest!: update_tokens_length)
  show ?case using a b c strict by auto
qed

declare group_loop.simps [simp del]

text \<open>
  \<^verbatim>\<open>while self.token not in ('&', '$'): self.update_tokens()\<close>, the tokens outside of
  groups.
\<close>

function skip_to_group :: "parser \<Rightarrow> (error \<times> parser) + parser" where
  "skip_to_group st =
     (if token st \<notin> {Some ''&'', Some ''$''} then
        (case advance st of Inl e \<Rightarrow> Inl e | Inr st' \<Rightarrow> skip_to_group st')
      else Inr st)"
  by pat_completeness auto

termination
  by (relation "measure (\<lambda>st. length (tokens st))") (auto dest: update_tokens_length)

declare skip_to_group.simps [simp del]

text \<open>
  The document \<^verbatim>\<open>nmls\<close> gets the group under its name; a name that is there already
  becomes a list of groups:
  \<^verbatim>\<open>
  if g_name in nmls:
      g_update = nmls[g_name]
      # Update to list of groups
      if not isinstance(g_update, list):
          g_update = [g_update]
      g_update.append(g_vars)
  else:
      g_update = g_vars
  nmls[g_name] = g_update
  \<close>
\<close>

definition add_group :: "(string \<times> val) list \<Rightarrow> string \<Rightarrow> group \<Rightarrow> (string \<times> val) list" where
  "add_group nmls g_name g_vars =
     AList.update (lower g_name)
       (case map_of nmls (lower g_name) of
          None \<Rightarrow> VDict (vars g_vars) (start_index g_vars)
        | Some g_update \<Rightarrow> VList (as_list g_update @ [VDict (vars g_vars) (start_index g_vars)]))
       nmls"

text \<open>
  The main loop of \<^verbatim>\<open>readstream\<close>:
  \<^verbatim>\<open>
  while True:
      try:
          # Check for classic group terminator
          if self.token == 'end':
              self.update_tokens()
          # Ignore tokens outside of namelist groups
          while self.token not in ('&', '$'):
              self.update_tokens()
      except StopIteration:
          break
      # Create the next namelist
      self.update_tokens()
      g_name = self.token
      g_vars = Namelist()
      v_name = None
      grp_patch = nml_patch.get(g_name.lower(), {})
      # Populate the namelist group
      while g_name:
          ...                              # group_loop
      try:
          self.update_tokens()
      except StopIteration:
          break
  return nmls
  \<close>
  \<^verbatim>\<open>nml_patch\<close> maps the name of a group to the patch of the group. \<^verbatim>\<open>parse_variable\<close>
  removes from it, in place, the variables it patches, so the patch is handed on from
  group to group.
\<close>

lemma skip_to_group_length:
  "skip_to_group st = Inr st' \<Longrightarrow> length (tokens st') \<le> length (tokens st)"
proof (induction st rule: skip_to_group.induct)
  case (1 st)
  show ?case
  proof (cases "token st \<notin> {Some ''&'', Some ''$''}")
    case False
    with "1.prems" show ?thesis by (subst (asm) skip_to_group.simps) (auto split: if_splits)
  next
    case True
    from "1.prems" True obtain st1 where
      a: "advance st = Inr st1" and b: "skip_to_group st1 = Inr st'"
      by (subst (asm) skip_to_group.simps) (auto split: sum.splits)
    from update_tokens_length [OF a] "1.IH" [OF True a b] show ?thesis by simp
  qed
qed

lemma write_lines_tokens: "write_lines ls st = Inr st' \<Longrightarrow> tokens st' = tokens st"
  by (induction ls arbitrary: st) (auto split: option.splits)

lemma append_patched_tokens:
  "append_patched x items g st = Inr (g', st') \<Longrightarrow> tokens st' = tokens st"
  by (induction x items g st rule: append_patched.induct)
     (auto split: sum.splits dest: write_lines_tokens)

lemma group_loop_length:
  "group_loop x g p st = Inr (g', p', st') \<Longrightarrow> length (tokens st') \<le> length (tokens st)"
proof (induction x g p st rule: group_loop.induct)
  case (1 x g_vars grp_patch st)
  from "1.prems" obtain st1 where
    s1: "(if token st \<notin> {Some ''='', Some ''%'', Some ''(''} then advance st else Inr st) = Inr st1"
    by (subst (asm) group_loop.simps) (auto split: sum.splits)
  let ?step = "(if token st1 \<in> {Some ''='', Some ''('', Some ''%''} then
                   (case parse_variable x st1 g_vars grp_patch of
                      Inl e \<Rightarrow> Inl e
                    | Inr ((v_name, vals), g_vars', grp_patch', st2) \<Rightarrow>
                        Inr (set_variable g_vars' v_name vals, grp_patch', st2))
                 else Inr (g_vars, grp_patch, st1))"
  from "1.prems" s1 obtain g1 p1 st3 where s2: "?step = Inr (g1, p1, st3)"
    by (subst (asm) group_loop.simps) (auto split: sum.splits simp del: insert_iff)
  have a: "length (tokens st1) \<le> length (tokens st)"
    using s1 by (auto split: if_splits dest!: update_tokens_length)
  have b: "length (tokens st3) \<le> length (tokens st1)"
    using s2 by (auto split: if_splits sum.splits dest!: parse_variable_length)
  show ?case
  proof (cases "token st3 \<in> {Some ''/'', Some ''&'', Some ''$''}")
    case True
    with "1.prems" s1 s2 have "tokens st' = tokens st3"
      by (subst (asm) group_loop.simps)
         (auto split: sum.splits simp del: insert_iff dest: append_patched_tokens)
    with a b show ?thesis by simp
  next
    case False
    with "1.prems" s1 s2 have r: "group_loop x g1 p1 st3 = Inr (g', p', st')"
      by (subst (asm) group_loop.simps) (auto split: sum.splits simp del: insert_iff)
    from "1.IH" [OF s1 s2 refl refl False r] a b show ?thesis by simp
  qed
qed

function main_loop ::
  "ext \<Rightarrow> (string \<times> val) list \<Rightarrow> (string \<times> (string \<times> val) list) list \<Rightarrow> parser
     \<Rightarrow> (error \<times> parser) + ((string \<times> val) list \<times> parser)" where
  "main_loop x nmls nml_patch st =
     (case (case (if token st = Some ''end'' then advance st else Inr st) of
              Inl e \<Rightarrow> Inl e
            | Inr st1 \<Rightarrow> skip_to_group st1) of
        Inl (StopIteration, st') \<Rightarrow> Inr (nmls, st')
      | Inl (e, st') \<Rightarrow> Inl (e, st')
      | Inr st2 \<Rightarrow>
          (case advance st2 of
             Inl e \<Rightarrow> Inl e
           | Inr st3 \<Rightarrow>
               (case token st3 of
                  None \<Rightarrow> Inl (AttributeError, st3)
                | Some g_name \<Rightarrow>
                    (case group_loop x \<lparr>vars = [], start_index = []\<rparr>
                            (case map_of nml_patch (lower g_name) of
                               None \<Rightarrow> [] | Some grp_patch \<Rightarrow> grp_patch) st3 of
                       Inl e \<Rightarrow> Inl e
                     | Inr (g_vars, grp_patch', st4) \<Rightarrow>
                         (case advance st4 of
                            Inl (StopIteration, st') \<Rightarrow> Inr (add_group nmls g_name g_vars, st')
                          | Inl (e, st') \<Rightarrow> Inl (e, st')
                          | Inr st5 \<Rightarrow>
                              main_loop x (add_group nmls g_name g_vars)
                                (case map_of nml_patch (lower g_name) of
                                   None \<Rightarrow> nml_patch
                                 | Some _ \<Rightarrow> AList.update (lower g_name) grp_patch' nml_patch)
                                st5)))))"
  by pat_completeness auto

termination
proof (relation "measure (\<lambda>(x, nmls, nml_patch, st). length (tokens st))", goal_cases)
  case 1
  show ?case by simp
next
  case (2 x nmls nml_patch st st2 st3 g_name r g_vars rest grp_patch' st4 st5)
  have a: "length (tokens st2) \<le> length (tokens st)"
    using 2(1) by (auto split: if_splits sum.splits
        dest!: update_tokens_length skip_to_group_length)
  have b: "length (tokens st3) < length (tokens st2)"
    using 2(2) by (rule update_tokens_length)
  have c: "length (tokens st4) \<le> length (tokens st3)"
    using 2 by (auto dest!: group_loop_length)
  have d: "length (tokens st5) < length (tokens st4)"
    using 2 by (auto dest!: update_tokens_length)
  show ?case using a b c d by simp
qed

declare main_loop.simps [simp del]

text \<open>
  \<^verbatim>\<open>readstream\<close> after the tokenizer (\<^verbatim>\<open>f90nml/tokenizer.py\<close>, not part of the sources at
  hand): \<open>f90lex\<close> is the list of tokens of the whole file.
  \<^verbatim>\<open>
  self.tokens = iter(f90lex)
  nmls = Namelist()
  # Attempt to get first token; abort on empty file
  try:
      self.update_tokens(write_token=False)
  except StopIteration:
      return nmls
  ...                                      # main_loop
  \<close>
\<close>

definition readstream ::
  "ext \<Rightarrow> string list \<Rightarrow> (string \<times> (string \<times> val) list) list \<Rightarrow> parser
     \<Rightarrow> (error \<times> parser) + ((string \<times> val) list \<times> parser)" where
  "readstream x f90lex nml_patch st =
     (case update_tokens False None False (st\<lparr>tokens := f90lex\<rparr>) of
        Inl (StopIteration, st') \<Rightarrow> Inr ([], st')
      | Inl (e, st') \<Rightarrow> Inl (e, st')
      | Inr st1 \<Rightarrow> main_loop x [] nml_patch st1)"

text \<open>
  A new \<^verbatim>\<open>Parser()\<close>, and the parser in patch mode, its patch file open and empty.
\<close>

definition new_parser :: parser where
  "new_parser = \<lparr>tokens = [], token = None, prior_token = None, pfile = None,
     default_start_index = 1, global_start_index = None, comment_tokens = ''!'',
     sparse_arrays = False, row_major = False, strict_logical = True\<rparr>"

definition patching :: parser where
  "patching = new_parser\<lparr>pfile := Some []\<rparr>"

section \<open>Stand-ins for the absent collaborators\<close>

text \<open>
  To run the parser on concrete token lists the parameters of \<^typ>\<open>ext\<close> need values. The
  theorems about all inputs hold for every choice of them; the runs below use these.
\<close>

text \<open>Python's \<^verbatim>\<open>str\<close> of an integer, in decimal.\<close>

fun decimal :: "nat \<Rightarrow> string" where
  "decimal n = (if n < 10 then [char_of (48 + n)] else decimal (n div 10) @ [char_of (48 + n mod 10)])"

declare decimal.simps [simp del]

definition str_int :: "int \<Rightarrow> string" where
  "str_int i = (if i < 0 then ''-'' @ decimal (nat (- i)) else decimal (nat i))"

text \<open>
  Modelled from the spec: the Index Engine (\<^verbatim>\<open>FIndex\<close>). Given one triplet per dimension it
  produces the first-index vector (the configured global start for every dimension, or
  else the start of each triplet) and the coordinates of the cross product of the ranges
  \<open>start \<dots> end\<close> stepped by the stride (default 1), the leftmost dimension varying
  fastest. \<^verbatim>\<open>parse_index\<close> stores the end index plus one, so an upward range stops below
  the stored end; a negative stride walks downward and stops above the stored end. A
  triplet with an end and no start is the single index \<open>end - 1\<close>, one with a start and no
  end the single index \<open>start\<close>. A triplet with neither (the whole dimension, \<^verbatim>\<open>:\<close>) has no
  bound to stop at; it gets no coordinates here.
\<close>

function upto_by :: "int \<Rightarrow> int \<Rightarrow> int \<Rightarrow> int list" where
  "upto_by i e k =
     (if 0 < k \<and> i < e then i # upto_by (i + k) e k
      else if k < 0 \<and> e < i then i # upto_by (i + k) e k
      else [])"
  by pat_completeness auto

termination
  by (relation "measure (\<lambda>(i, e, k). nat (if 0 < k then e - i else i - e))") auto

declare upto_by.simps [simp del]

fun dim_range :: "triplet \<Rightarrow> int list" where
  "dim_range (Some s, Some e, None) = upto_by s e 1"
| "dim_range (Some s, Some e, Some k) = upto_by s e k"
| "dim_range (None, Some e, k) = [e - 1]"
| "dim_range (Some s, None, k) = [s]"
| "dim_range (None, None, k) = []"

fun cross :: "int list list \<Rightarrow> int list list" where
  "cross [] = [[]]"
| "cross (r # rs) = concat (map (\<lambda>rest. map (\<lambda>i. i # rest) r) (cross rs))"

definition FIndex_spec :: "triplet list \<Rightarrow> int option \<Rightarrow> findex" where
  "FIndex_spec bounds global_start =
     \<lparr>first = (case global_start of
                 None \<Rightarrow> map fst bounds
               | Some g \<Rightarrow> map (\<lambda>_. Some g) bounds),
      pending = cross (map dim_range bounds)\<rparr>"

text \<open>
  The stand-ins for the conversions and the rendering cover integers, which is all the
  runs below contain: a token that is not an integer is kept as a string, an integer is
  rendered in decimal and every other value as the empty text, and a leftover patched
  integer is rendered as \<^verbatim>\<open>name = value\<close>.
\<close>

fun repr_int :: "val \<Rightarrow> string" where
  "repr_int (VInt i) = str_int i"
| "repr_int v = []"

fun var_strings_int :: "string \<Rightarrow> val \<Rightarrow> string list" where
  "var_strings_int v_name (VInt i) = [v_name @ '' = '' @ str_int i]"
| "var_strings_int v_name v = []"

definition integers_only :: ext where
  "integers_only = \<lparr>FIndex = FIndex_spec, recast = (\<lambda>strict v_str. VStr v_str),
     f90repr = repr_int, var_strings = var_strings_int\<rparr>"

section \<open>Properties of the merge\<close>

lemma merge_entry_code:
  "(case (v, s) of
               (VDict vd vsi, VDict sd ssi) \<Rightarrow> VDict (merge_dicts sd vd) ssi
             | (VList vl, VList sl) \<Rightarrow> VList (merge_lists sl vl)
             | (VNone, _) \<Rightarrow> s
             | _ \<Rightarrow> v) = merge_entry s v"
  by (cases v; cases s) (simp_all add: merge_entry_def merge_values.simps)

lemma merge_lists_map:
  "merge_lists src new =
     map (\<lambda>(s, v). merge_entry s v)
       (zip (extend_none src (max (length src) (length new)))
            (extend_none new (max (length src) (length new))))"
proof -
  have a: "(if length src < length new then extend_none src (length new) else src)
        = extend_none src (max (length src) (length new))"
    by (simp add: extend_none_def max_def)
  have b: "(if length src < length new then new else extend_none new (length src))
        = extend_none new (max (length src) (length new))"
    by (simp add: extend_none_def max_def)
  show ?thesis
    unfolding merge_lists.simps [of src new] Let_def a b merge_entry_code ..
qed

lemma length_extend_none: "length (extend_none l n) = max (length l) n"
  by (simp add: extend_none_def)

lemma length_merge_lists: "length (merge_lists src new) = max (length src) (length new)"
  by (simp add: merge_lists_map length_extend_none)

lemma nth_merge_lists:
  assumes "i < max (length src) (length new)"
  shows "merge_lists src new ! i =
     merge_entry (extend_none src (max (length src) (length new)) ! i)
                 (extend_none new (max (length src) (length new)) ! i)"
  using assms by (simp add: merge_lists_map length_extend_none)





lemma nth_extend_none:
  "i < max (length l) n \<Longrightarrow> extend_none l n ! i = (if i < length l then l ! i else VNone)"
  by (auto simp: extend_none_def nth_append)

lemma merge_entry_unset_new: "merge_entry x VNone = x"
  by (cases x) (simp_all add: merge_entry_def)

lemma merge_entry_unset_old: "merge_entry VNone y = y"
  by (cases y) (simp_all add: merge_entry_def)

section \<open>Claims about the merge\<close>




text \<open>
  Claim C4. When at every common position at most one of the two lists holds an entry
  that is not unset, merging them in either order gives the same value.
\<close>

theorem merge_values_commute_disjoint:
  assumes "\<forall>i < min (length a) (length b). a ! i = VNone \<or> b ! i = VNone"
  shows "merge_values (VList a) (VList b) = merge_values (VList b) (VList a)"
proof -
  let ?m = "max (length a) (length b)"
  have "merge_lists a b ! i = merge_lists b a ! i" if i: "i < ?m" for i
  proof -
    have bound: "i < max (length b) (length a)" using i by (simp add: max.commute)
    have one: "extend_none a ?m ! i = VNone \<or> extend_none b ?m ! i = VNone"
      using assms i by (auto simp: nth_extend_none)
    have "merge_entry (extend_none a ?m ! i) (extend_none b ?m ! i)
        = merge_entry (extend_none b ?m ! i) (extend_none a ?m ! i)"
      using one by (auto simp: merge_entry_unset_new merge_entry_unset_old)
    then show ?thesis
      using nth_merge_lists [OF i] nth_merge_lists [OF bound] by (simp add: max.commute)
  qed
  then have "merge_lists a b = merge_lists b a"
    by (intro nth_equalityI) (simp_all add: length_merge_lists max.commute)
  then show ?thesis by (simp add: merge_values.simps)
qed

text \<open>
  The arrays of \<^verbatim>\<open>v(3:4) = 3, 4\<close> (padded to start at index 1) and of \<^verbatim>\<open>v = 1, 2\<close>.
\<close>

theorem merge_values_commute_disjoint_witness:
  "merge_values (VList [VNone, VNone, VInt 3, VInt 4]) (VList [VInt 1, VInt 2])
       = merge_values (VList [VInt 1, VInt 2]) (VList [VNone, VNone, VInt 3, VInt 4])
   \<and> merge_values (VList [VInt 1, VInt 2]) (VList [VNone, VNone, VInt 3, VInt 4])
       = VList [VInt 1, VInt 2, VInt 3, VInt 4]"
proof -
  have h: "\<forall>i < min (length [VNone, VNone, VInt 3, VInt 4]) (length [VInt 1, VInt 2]).
       [VNone, VNone, VInt 3, VInt 4] ! i = VNone \<or> [VInt 1, VInt 2] ! i = VNone"
    by (simp add: less_Suc_eq)
  have v: "merge_values (VList [VInt 1, VInt 2]) (VList [VNone, VNone, VInt 3, VInt 4])
       = VList [VInt 1, VInt 2, VInt 3, VInt 4]"
    by (simp add: merge_values.simps merge_lists.simps extend_none_def)
  show ?thesis using v merge_values_commute_disjoint [OF h] by simp
qed

section \<open>Properties of the token cursor and of \<^verbatim>\<open>parse_index\<close>\<close>

lemma skip_padding_plain:
  "plain st t \<Longrightarrow> skip_padding st sk pv pt t ts = Inr (pt, t, ts)"
  by (cases t) (simp_all add: plain_def skip_padding.simps)

lemma advance_plain:
  assumes "tokens st = t # ts" and "plain st t" and "pfile st = None"
  shows "advance st = Inr (st\<lparr>tokens := ts, token := Some t, prior_token := token st\<rparr>)"
  using assms by (simp add: update_tokens_def skip_padding_plain pfile_write_def)

lemma parse_index_single:
  assumes ts: "tokens st = t # sep # ts" and pt: "plain st t" and psep: "plain st sep"
    and pf: "pfile st = None"
    and n: "py_int t = Some n" and n0: "n \<noteq> 0" and sep: "sep \<in> {'','', '')''}"
  shows "parse_index v_name st =
     Inr ((Some n, Some (n + 1), None),
          st\<lparr>tokens := ts, token := Some sep, prior_token := Some t\<rparr>)"
proof -
  let ?st1 = "st\<lparr>tokens := sep # ts, token := Some t, prior_token := token st\<rparr>"
  let ?st2 = "st\<lparr>tokens := ts, token := Some sep, prior_token := Some t\<rparr>"
  have a1: "advance st = Inr ?st1"
    using advance_plain [OF ts pt pf] .
  have "plain ?st1 sep" using psep by (simp add: plain_def)
  then have a2: "advance ?st1 = Inr ?st2"
    using advance_plain [of ?st1 sep ts] pf by simp
  have s: "parse_index_start v_name ?st1 = Inr (Some n, ?st2)"
    by (simp add: parse_index_start_def int_of_token_def n a2)
  have e: "parse_index_end v_name (Some n) ?st2 = Inr (Some (n + 1), ?st2)"
    using sep n0 by (auto simp: parse_index_end_def)
  have d: "parse_index_stride v_name ?st2 = Inr (None, ?st2)"
    using sep by (auto simp: parse_index_stride_def)
  show ?thesis
    using sep by (auto simp: parse_index_def a1 s e d)
qed

lemma names_variable_format: "names_variable v (ValueError (v @ m))"
  by (simp add: names_variable_def)

lemma py_int_sep: "py_int '','' = None" "py_int '')'' = None" "py_int '':'' = None"
  by (simp_all add: py_int_def strip_def is_space_def is_digit_def)

lemma parse_index_empty:
  assumes ts: "tokens st = t # ts" and pt: "plain st t" and pf: "pfile st = None"
    and t: "t \<in> {'','', '')''}"
  shows "parse_index v_name st =
     Inl (ValueError (v_name @ '' index cannot be empty.''),
          st\<lparr>tokens := ts, token := Some t, prior_token := token st\<rparr>)"
  using t by (auto simp: parse_index_def advance_plain [OF ts pt pf] parse_index_start_def
      int_of_token_def py_int_sep int_error_def)

lemma parse_index_end_implicit:
  assumes tok: "token st = Some '':''" and ts: "tokens st = '':'' # ts" and pt: "plain st '':''"
    and pf: "pfile st = None"
  shows "parse_index_end v_name i_start st =
     Inl (ValueError (v_name @ '' end index cannot be implicit when using stride.''),
          st\<lparr>tokens := ts, token := Some '':'', prior_token := Some '':''\<rparr>)"
  using tok by (simp add: parse_index_end_def advance_plain [OF ts pt pf]
      int_of_token_def py_int_sep int_error_def)

lemma parse_index_stride_zero:
  assumes tok: "token st = Some '':''" and ts: "tokens st = t # ts" and pt: "plain st t"
    and pf: "pfile st = None" and z: "py_int t = Some 0"
  shows "parse_index_stride v_name st =
     Inl (ValueError (v_name @ '' stride index cannot be zero.''),
          st\<lparr>tokens := ts, token := Some t, prior_token := Some '':''\<rparr>)"
  using tok by (simp add: parse_index_stride_def advance_plain [OF ts pt pf]
      int_of_token_def z)

lemma parse_index_stride_implicit:
  assumes tok: "token st = Some '':''" and ts: "tokens st = '')'' # ts" and pt: "plain st '')''"
    and pf: "pfile st = None"
  shows "parse_index_stride v_name st =
     Inl (ValueError (v_name @ '' stride index cannot be implicit.''),
          st\<lparr>tokens := ts, token := Some '')'', prior_token := Some '':''\<rparr>)"
  using tok by (simp add: parse_index_stride_def advance_plain [OF ts pt pf]
      int_of_token_def py_int_sep int_error_def)

lemma parse_index_stride_implicit_comma:
  assumes tok: "token st = Some '':''" and ts: "tokens st = '','' # ts" and pt: "plain st '',''"
    and pf: "pfile st = None"
  shows "parse_index_stride v_name st =
     Inl (int_error '','', st\<lparr>tokens := ts, token := Some '','', prior_token := Some '':''\<rparr>)"
  using tok by (simp add: parse_index_stride_def advance_plain [OF ts pt pf]
      int_of_token_def py_int_sep int_error_def)

text \<open>
  In read mode, \<^verbatim>\<open>parse_index\<close> raises none of its errors on a well-formed index and
  returns its triplet (for the single index 0 without the end, see \<open>single\<close>).
\<close>

lemma advance_plain_update:
  "pfile st = None \<Longrightarrow> plain st t \<Longrightarrow>
     advance (st\<lparr>tokens := t # ts, token := a, prior_token := b\<rparr>)
       = Inr (st\<lparr>tokens := ts, token := Some t, prior_token := a\<rparr>)"
  using advance_plain [of "st\<lparr>tokens := t # ts, token := a, prior_token := b\<rparr>" t ts]
  by (simp add: plain_def)

lemma parse_index_well_formed:
  assumes wf: "well_formed_index ts0 tr"
    and pf: "pfile st = None"
    and pl: "\<forall>t \<in> set (sep # ts0). plain st t"
    and sep: "sep \<in> {'','', '')''}"
  shows "parse_index v_name (st\<lparr>tokens := ts0 @ sep # rest, token := a, prior_token := b\<rparr>)
     = Inr (tr, st\<lparr>tokens := rest, token := Some sep, prior_token := Some (last ts0)\<rparr>)"
  using wf pf pl sep
  by (cases rule: well_formed_index.cases)
     (auto simp: parse_index_def parse_index_start_def parse_index_end_def
        parse_index_stride_def int_of_token_def advance_plain_update py_int_sep int_error_def)

section \<open>Claims about \<^verbatim>\<open>parse_index\<close>\<close>

text \<open>
  Claim C7 asks that each malformed index is reported with a message that names the
  variable. For an implicit stride followed by \<^verbatim>\<open>,\<close> (the index of \<^verbatim>\<open>v(1:5:,2)\<close>)
  \<^verbatim>\<open>parse_index\<close> raises the error of \<^verbatim>\<open>int(',')\<close> itself, whose message is
  \<^verbatim>\<open>invalid literal for int() with base 10: ','\<close> and does not name \<^verbatim>\<open>v\<close>: the handler
  tests \<^verbatim>\<open>self.token == ')'\<close> only, where the handlers of the start and the end index
  test both \<^verbatim>\<open>,\<close> and \<^verbatim>\<open>)\<close>. The lemmas \<open>parse_index_empty\<close>,
  \<open>parse_index_end_implicit\<close>, \<open>parse_index_stride_implicit\<close> and
  \<open>parse_index_stride_zero\<close> show the named messages of the other cases, and
  \<open>parse_index_well_formed\<close> that a well-formed index raises none of them.
\<close>

theorem parse_index_implicit_stride_before_comma:
  "parse_index ''v'' (reading ''v'' ''('' [''1'', '':'', ''5'', '':'', '','', ''2'', '')''])
     = Inl (int_error '','', reading '':'' '','' [''2'', '')''])
   \<and> \<not> names_variable ''v'' (int_error '','')"
  by (simp add: parse_index_def parse_index_start_def parse_index_end_def parse_index_stride_def
      reading_def update_tokens_def skip_padding.simps whitespace_def pfile_write_def
      int_of_token_def py_int_def strip_def is_space_def is_digit_def digit_value_def
      int_error_def names_variable_def)

text \<open>
  Claim C8 asks for the triplet \<open>(start, start + 1, None)\<close> for every single index
  \<^verbatim>\<open>v(n)\<close>. The code tests \<^verbatim>\<open>if i_start:\<close>, which is false for the integer 0, so for
  \<^verbatim>\<open>v(0)\<close> the end stays \<^verbatim>\<open>None\<close>; for every other start the claim holds
  (\<open>parse_index_single\<close>).
\<close>

theorem parse_index_zero_start:
  "parse_index ''v'' (reading ''v'' ''('' [''0'', '')'', ''='', ''1''])
     = Inr ((Some 0, None, None), reading ''0'' '')'' [''='', ''1''])"
  by (simp add: parse_index_def parse_index_start_def parse_index_end_def parse_index_stride_def
      reading_def update_tokens_def skip_padding.simps whitespace_def pfile_write_def
      int_of_token_def py_int_def strip_def is_space_def is_digit_def digit_value_def)

section \<open>Properties of \<^verbatim>\<open>pad_array\<close> and \<^verbatim>\<open>append_value\<close>\<close>









lemma set_extend_to: "set (extend_to xs n x) \<subseteq> insert x (set xs)"
  by (auto simp: extend_to_def)





lemma rank_ok_list: "rank_ok d (VList xs) \<longleftrightarrow> (\<exists>d'. d = Suc d' \<and> (\<forall>x \<in> set xs. rank_ok d' x))"
  by (cases d) (auto simp: list_all_iff)











section \<open>Claims about the placement of values\<close>





section \<open>Properties of the start-index reconciliation\<close>

lemma nml_get_set: "nml_get (nml_set g key v) key = Some v"
  by (simp add: nml_get_def nml_set_def update_conv)

lemma start_index_nml_set: "start_index (nml_set g key v) = start_index g"
  by (simp add: nml_set_def)

lemma prepend_none_list:
  "nml_get parent v_name = Some (VList xs) \<Longrightarrow>
     prepend_none n v_name parent = Inr (nml_set parent v_name (VList (replicate (nat n) VNone @ xs)))"
  by (simp add: prepend_none_def)

lemma resize_pads:
  "nml_get parent v_name = Some (VList xs) \<Longrightarrow>
   \<exists>parent'. resize p_idx v_first v_name parent = Inr parent'
      \<and> nml_get parent' v_name = Some (VList (replicate (pad_count p_idx v_first) VNone @ xs))
      \<and> start_index parent' = start_index parent"
proof (induction p_idx v_first v_name parent arbitrary: xs rule: resize.induct)
  case (1 i_p p_idx i_v v_first v_name parent)
  show ?case
  proof (cases "i_v < i_p")
    case True
    let ?parent1 = "nml_set parent v_name (VList (replicate (nat (i_p - i_v)) VNone @ xs))"
    have pn: "prepend_none (i_p - i_v) v_name parent = Inr ?parent1"
      using "1.prems" by (rule prepend_none_list)
    have g1: "nml_get ?parent1 v_name = Some (VList (replicate (nat (i_p - i_v)) VNone @ xs))"
      by (rule nml_get_set)
    from "1.IH"(1) [OF True pn g1] obtain parent' where
      "resize p_idx v_first v_name ?parent1 = Inr parent'"
      "nml_get parent' v_name =
         Some (VList (replicate (pad_count p_idx v_first) VNone @ replicate (nat (i_p - i_v)) VNone @ xs))"
      "start_index parent' = start_index ?parent1"
      by blast
    then show ?thesis
      using True pn by (simp add: start_index_nml_set replicate_add [symmetric] add.commute)
  next
    case False
    from "1.IH"(2) [OF False "1.prems"] show ?thesis using False by simp
  qed
qed (simp_all)

lemma resize_default_pads:
  "nml_get parent v_name = Some (VList xs) \<Longrightarrow> list_all (\<lambda>p. p \<noteq> None) p_start \<Longrightarrow>
   \<exists>parent'. resize_default p_start d v_name parent = Inr parent'
      \<and> nml_get parent' v_name
          = Some (VList (replicate (pad_count p_start (map (\<lambda>_. Some d) p_start)) VNone @ xs))
      \<and> start_index parent' = start_index parent"
proof (induction p_start d v_name parent arbitrary: xs rule: resize_default.induct)
  case (3 i_p p_start i_v v_name parent)
  have rest: "list_all (\<lambda>p. p \<noteq> None) p_start" using "3.prems"(2) by simp
  show ?case
  proof (cases "i_v < i_p")
    case True
    let ?parent1 = "nml_set parent v_name (VList (replicate (nat (i_p - i_v)) VNone @ xs))"
    have pn: "prepend_none (i_p - i_v) v_name parent = Inr ?parent1"
      using "3.prems"(1) by (rule prepend_none_list)
    have g1: "nml_get ?parent1 v_name = Some (VList (replicate (nat (i_p - i_v)) VNone @ xs))"
      by (rule nml_get_set)
    from "3.IH"(1) [OF True pn g1 rest] obtain parent' where
      "resize_default p_start i_v v_name ?parent1 = Inr parent'"
      "nml_get parent' v_name =
         Some (VList (replicate (pad_count p_start (map (\<lambda>_. Some i_v) p_start)) VNone
                      @ replicate (nat (i_p - i_v)) VNone @ xs))"
      "start_index parent' = start_index ?parent1"
      by blast
    then show ?thesis
      using True pn by (simp add: start_index_nml_set replicate_add [symmetric] add.commute)
  next
    case False
    from "3.IH"(2) [OF False "3.prems"(1) rest] show ?thesis using False by simp
  qed
qed (simp_all)

lemma lowest_first_nth:
  "d < length p_idx \<Longrightarrow> d < length v_first \<Longrightarrow>
     lowest_first p_idx v_first ! d = i_first (p_idx ! d) (v_first ! d)"
proof (induction p_idx v_first arbitrary: d rule: lowest_first.induct)
  case (1 p p_idx v v_first)
  then show ?case by (cases d) simp_all
qed simp_all

lemma nml_get_start_index_update:
  "nml_get (parent\<lparr>start_index := si\<rparr>) v_name = nml_get parent v_name"
  by (simp add: nml_get_def)

text \<open>
  The branch for a variable without index tests \<^verbatim>\<open>v_name in parent.start_index\<close> with the
  name as written, while the start indices are recorded under the lower-case name. For
  a name with an upper-case letter the test fails: no start index is established and the
  array is left as it is.
\<close>

lemma reindex_unindexed_upper_case:
  "reindex_unindexed new_parser ''V''
       \<lparr>vars = [(''v'', VList [VInt 3, VInt 4, VInt 5])], start_index = [(''v'', [Some 3])]\<rparr>
     = Inr \<lparr>vars = [(''v'', VList [VInt 3, VInt 4, VInt 5])], start_index = [(''v'', [Some 3])]\<rparr>"
  by (simp add: reindex_unindexed_def)

section \<open>Claims about the start-index reconciliation\<close>

text \<open>
  What the two reconciliation blocks do to a group that holds an array for the variable.
  When its start index is recorded and a later indexed assignment comes with first
  indices \<open>v_first\<close>, the recorded vector becomes, dimension by dimension, the lower of the
  old and the new start, and the array gets, in front, one unset entry for every index
  between a new, lower start and the old one (\<^const>\<open>pad_count\<close>); everything it held stays
  behind them. The block for an assignment without index does the same with
  \<^verbatim>\<open>default_start_index\<close> in every dimension, but only when the name as written is a key of
  \<^verbatim>\<open>parent.start_index\<close>, and it records \<^verbatim>\<open>default_start_index\<close> also where the recorded
  start was lower.
\<close>

lemma reindex_indexed_pads:
  assumes arr: "nml_get parent v_name = Some (VList xs)"
    and si: "map_of (start_index parent) (lower v_name) = Some p_idx"
  shows "\<exists>parent'.
           reindex_indexed st v_name parent v_first = Inr (lowest_first p_idx v_first, parent')
           \<and> nml_get parent' v_name
               = Some (VList (replicate (pad_count p_idx (lowest_first p_idx v_first)) VNone @ xs))
           \<and> map_of (start_index parent') (lower v_name) = Some (lowest_first p_idx v_first)"
proof -
  from resize_pads [OF arr, of p_idx "lowest_first p_idx v_first"] obtain parent1 where
    r: "resize p_idx (lowest_first p_idx v_first) v_name parent = Inr parent1"
    and g: "nml_get parent1 v_name
        = Some (VList (replicate (pad_count p_idx (lowest_first p_idx v_first)) VNone @ xs))"
    by blast
  show ?thesis
    using si r g
    by (simp add: reindex_indexed_def Let_def nml_get_start_index_update update_conv)
qed

lemma reindex_unindexed_pads:
  assumes arr: "nml_get parent v_name = Some (VList xs)"
    and key: "map_of (start_index parent) v_name \<noteq> None"
    and si: "map_of (start_index parent) (lower v_name) = Some p_start"
    and ok: "list_all (\<lambda>p. p \<noteq> None) p_start"
  shows "\<exists>parent'.
           reindex_unindexed st v_name parent = Inr parent'
           \<and> nml_get parent' v_name
               = Some (VList (replicate
                   (pad_count p_start (map (\<lambda>_. Some (default_start_index st)) p_start)) VNone @ xs))
           \<and> map_of (start_index parent') (lower v_name)
               = Some (map (\<lambda>_. Some (default_start_index st)) p_start)"
proof -
  from resize_default_pads [OF arr ok, of "default_start_index st"] obtain parent1 where
    r: "resize_default p_start (default_start_index st) v_name parent = Inr parent1"
    and g: "nml_get parent1 v_name
        = Some (VList (replicate
             (pad_count p_start (map (\<lambda>_. Some (default_start_index st)) p_start)) VNone @ xs))"
    by blast
  show ?thesis
    using key si r g
    by (auto simp: reindex_unindexed_def nml_get_start_index_update update_conv)
qed

text \<open>
  \<^verbatim>\<open>parse_variable\<close> reaches the first block through \<^const>\<open>variable_index\<close>: started at the
  opening parenthesis of an index expression for a variable whose array and start index
  the group holds, it hands on the group with the array padded in front and the lower
  start recorded.
\<close>

lemma variable_index_reconciles:
  assumes t: "token st = Some ''(''"
    and pi: "parse_indices st = Inr (v_idx_bounds, st1)"
    and adv: "advance st1 = Inr st2"
    and no_dt: "token st2 \<noteq> Some ''%''"
    and arr: "nml_get parent v_name = Some (VList xs)"
    and si: "map_of (start_index parent) (lower v_name) = Some p_idx"
    and v_first: "v_first = lowest_first p_idx (first (FIndex x v_idx_bounds (global_start_index st1)))"
  shows "\<exists>parent'.
           variable_index x v_name parent st
             = Inr (Some ((FIndex x v_idx_bounds (global_start_index st1))\<lparr>first := v_first\<rparr>),
                    None, parent', st2)
           \<and> nml_get parent' v_name = Some (VList (replicate (pad_count p_idx v_first) VNone @ xs))
           \<and> map_of (start_index parent') (lower v_name) = Some v_first"
proof -
  from reindex_indexed_pads [OF arr si, of st1 "first (FIndex x v_idx_bounds (global_start_index st1))"]
  obtain parent' where
    r: "reindex_indexed st1 v_name parent (first (FIndex x v_idx_bounds (global_start_index st1)))
          = Inr (v_first, parent')"
    and g: "nml_get parent' v_name = Some (VList (replicate (pad_count p_idx v_first) VNone @ xs))"
    and s: "map_of (start_index parent') (lower v_name) = Some v_first"
    unfolding v_first by blast
  show ?thesis
    using t pi adv no_dt r g s by (simp add: variable_index_def Let_def)
qed

text \<open>
  A variable assigned first at index 5 and later at index 3 ends as \<^verbatim>\<open>[2, None, 1]\<close>,
  positions 3 to 5, with the start 3 recorded; and the example of the docstring of
  \<^verbatim>\<open>default_start_index\<close>, \<^verbatim>\<open>v(3:5) = 3, 4, 5\<close> followed by \<^verbatim>\<open>v = 1, 2\<close>, ends as
  \<^verbatim>\<open>[1, 2, 3, 4, 5]\<close> with the start 1 recorded.
\<close>

lemma reconciliation_examples:
  "map_sum fst fst
     (readstream integers_only
        [''&'', ''a'', '' '', ''v'', ''('', ''5'', '')'', ''='', ''1'', [CHR 0x0A],
         ''v'', ''('', ''3'', '')'', ''='', ''2'', '' '', ''/'', [CHR 0x0A]] [] new_parser)
     = Inr [(''a'', VDict [(''v'', VList [VInt 2, VNone, VInt 1])] [(''v'', [Some 3])])]
   \<and> map_sum fst fst
     (readstream integers_only
        [''&'', ''a'', '' '', ''v'', ''('', ''3'', '':'', ''5'', '')'', ''='',
         ''3'', '','', ''4'', '','', ''5'', [CHR 0x0A],
         ''v'', ''='', ''1'', '','', ''2'', '' '', ''/'', [CHR 0x0A]] [] new_parser)
     = Inr [(''a'', VDict [(''v'', VList [VInt 1, VInt 2, VInt 3, VInt 4, VInt 5])]
                      [(''v'', [Some 1])])]"
  by code_simp

text \<open>
  An assignment without index records \<^verbatim>\<open>default_start_index\<close> whatever the recorded start
  was: after \<^verbatim>\<open>v(0:2) = 1, 2, 3\<close> the assignment \<^verbatim>\<open>v = 9\<close> raises the recorded start from 0
  to 1 and its value lands on the entry of index 0.
\<close>

lemma unindexed_raises_start_index:
  "map_sum fst fst
     (readstream integers_only
        [''&'', ''a'', '' '', ''v'', ''('', ''0'', '':'', ''2'', '')'', ''='',
         ''1'', '','', ''2'', '','', ''3'', [CHR 0x0A],
         ''v'', ''='', ''9'', '' '', ''/'', [CHR 0x0A]] [] new_parser)
     = Inr [(''a'', VDict [(''v'', VList [VInt 9, VInt 2, VInt 3])] [(''v'', [Some 1])])]"
  by code_simp

text \<open>
  Claim C2 asks that whenever a later assignment establishes a lower start index than
  the recorded one, the array built so far gets unset entries in front, one per index
  between the new and the old start. The block for an indexed assignment does so (above).
  The block for an assignment without index is meant to do so with the start
  \<^verbatim>\<open>default_start_index\<close> (the docstring of \<^verbatim>\<open>default_start_index\<close>: \<^verbatim>\<open>v(3:5) = 3, 4, 5\<close> and
  \<^verbatim>\<open>v = 1, 2\<close> give \<^verbatim>\<open>[1, 2, 3, 4, 5]\<close>), but it looks the name up in
  \<^verbatim>\<open>parent.start_index\<close> as it is written, while the keys there are in lower case. For a
  name written with an upper-case letter nothing is put in front and the recorded start
  stays: \<^verbatim>\<open>v(3:5) = 3, 4, 5\<close> followed by \<^verbatim>\<open>V = 1, 2\<close> ends as \<^verbatim>\<open>[1, 2, 5]\<close> with the start 3
  recorded. The values 3 and 4 are overwritten, and 1 and 2 stand at the indices 3 and 4.
\<close>

theorem unindexed_upper_case_not_reconciled:
  "map_sum fst fst
     (readstream integers_only
        [''&'', ''a'', '' '', ''v'', ''('', ''3'', '':'', ''5'', '')'', ''='',
         ''3'', '','', ''4'', '','', ''5'', [CHR 0x0A],
         ''V'', ''='', ''1'', '','', ''2'', '' '', ''/'', [CHR 0x0A]] [] new_parser)
     = Inr [(''a'', VDict [(''v'', VList [VInt 1, VInt 2, VInt 5])] [(''v'', [Some 3])])]"
  by code_simp

section \<open>Properties of \<^verbatim>\<open>parse_variable\<close>\<close>











section \<open>Claims about \<^verbatim>\<open>parse_variable\<close> and the patch output\<close>





text \<open>
  Fields of derived types: \<^verbatim>\<open>a%b = 7\<close> gives the variable \<^verbatim>\<open>a\<close> the record \<^verbatim>\<open>{b: 7}\<close>, the one
  element of its value list, and \<^verbatim>\<open>a(2)%b = 7\<close> gives it the array \<^verbatim>\<open>[{b: 7}]\<close>. In a group,
  the fields of one record are merged, and the start indices of a field are reconciled
  inside the record.
\<close>

lemma derived_type_examples:
  "map_sum fst id
     (parse_variable integers_only
        (reading ''a'' ''%'' [''b'', ''='', ''7'', '' '', ''/'', [CHR 0x0A]])
        \<lparr>vars = [], start_index = []\<rparr> [])
     = Inr ((''a'', VDict [(''b'', VInt 7)] []),
            \<lparr>vars = [(''a'', VDict [] [])], start_index = []\<rparr>, [],
            reading ''7'' ''/'' [[CHR 0x0A]])
   \<and> map_sum fst id
     (parse_variable integers_only
        (reading ''a'' ''('' [''2'', '')'', ''%'', ''b'', ''='', ''7'', '' '', ''/'', [CHR 0x0A]])
        \<lparr>vars = [], start_index = []\<rparr> [])
     = Inr ((''a'', VList [VDict [(''b'', VInt 7)] []]),
            \<lparr>vars = [(''a'', VDict [] [])], start_index = [(''a'', [Some 2])]\<rparr>, [],
            reading ''7'' ''/'' [[CHR 0x0A]])
   \<and> map_sum fst fst
     (readstream integers_only
        [''&'', ''g'', '' '', ''a'', ''%'', ''b'', ''='', ''1'', [CHR 0x0A],
         ''a'', ''%'', ''c'', ''='', ''2'', '' '', ''/'', [CHR 0x0A]] [] new_parser)
     = Inr [(''g'', VDict [(''a'', VDict [(''b'', VInt 1), (''c'', VInt 2)] [])] [])]
   \<and> map_sum fst fst
     (readstream integers_only
        [''&'', ''g'', '' '', ''a'', ''%'', ''b'', ''('', ''3'', '')'', ''='', ''1'', [CHR 0x0A],
         ''a'', ''%'', ''b'', ''('', ''1'', '')'', ''='', ''2'', '' '', ''/'', [CHR 0x0A]] [] new_parser)
     = Inr [(''g'', VDict [(''a'', VDict [(''b'', VList [VInt 2, VNone, VInt 1])]
                                     [(''b'', [Some 1])])] [])]"
  by code_simp

text \<open>
  Claim C10. \<^verbatim>\<open>delist\<close> of the empty list is \<^verbatim>\<open>None\<close>, so a variable without index whose
  value list is empty at the end of \<^verbatim>\<open>parse_variable\<close> (no value parsed and no patch value
  put in its place) gets the value \<^verbatim>\<open>None\<close>, not an empty array; \<^verbatim>\<open>x = 0*5\<close> is such a
  variable.
\<close>

theorem delist_empty:
  "delist [] = VNone
   \<and> parse_variable_return None None [] = VNone
   \<and> parse_variable_return (Some []) None [] = VNone
   \<and> map_sum fst fst
        (readstream integers_only
           [''&'', ''a'', '' '', ''x'', ''='', ''0'', ''*'', ''5'', '' '', ''/'', [CHR 0x0A]] [] new_parser)
      = Inr [(''a'', VDict [(''x'', VNone)] [])]"
  by code_simp

text \<open>
  Patching \<^verbatim>\<open>&a x=1,2,3 /\<close> with \<^verbatim>\<open>{a: {x: [9, 9]}}\<close>: the third value and the comma before
  it are left out of the output.
\<close>

lemma patch_example_4:
  "map_sum fst (\<lambda>(doc, st). (doc, pfile st))
     (readstream integers_only
        [''&'', ''a'', '' '', ''x'', ''='', ''1'', '','', ''2'', '','', ''3'', '' '', ''/'', [CHR 0x0A]]
        [(''a'', [(''x'', VList [VInt 9, VInt 9])])] patching)
   = Inr ([(''a'', VDict [(''x'', VList [VInt 9, VInt 9])] [])], Some (''&a x=9,9 /'' @ [CHR 0x0A]))"
  by code_simp

text \<open>
  Claim C5 asks that every source value beyond the patch is left out of the output.
  The code means to do so (its comment: \<^verbatim>\<open>Skip any values beyond the patch size\<close>) and
  does for plain values, as in the run above, but a value with a repeat factor is
  written: the round that reads \<^verbatim>\<open>*\<close> calls \<^verbatim>\<open>update_tokens()\<close> with its defaults twice,
  which write \<^verbatim>\<open>*\<close> and the repeated value. Patching \<^verbatim>\<open>&a x=1,2*3 /\<close> with \<^verbatim>\<open>{a: {x: [9]}}\<close>
  gives \<^verbatim>\<open>&a x=9*3 /\<close>.
\<close>

theorem patch_repeated_value_not_skipped:
  "map_sum fst (\<lambda>(doc, st). (doc, pfile st))
     (readstream integers_only
        [''&'', ''a'', '' '', ''x'', ''='', ''1'', '','', ''2'', ''*'', ''3'', '' '', ''/'', [CHR 0x0A]]
        [(''a'', [(''x'', VList [VInt 9])])] patching)
   = Inr ([(''a'', VDict [(''x'', VInt 9)] [])], Some (''&a x=9*3 /'' @ [CHR 0x0A]))"
  by code_simp

end
